theory Spec2Isabelle
  imports Main
begin

section \<open>JavaScript strings and values\<close>

text \<open>
  A JavaScript string is represented by the bytes of its UTF-8 encoding. The characters the
  router inspects (\<open>/\<close>, \<open>:\<close>, \<open>%\<close>, hexadecimal digits) are ASCII, so splitting, prefix
  tests, equality and substring search agree on both representations.
\<close>

text \<open>\<^verbatim>\<open>s.startsWith(p)\<close>\<close>

definition startsWith :: "string \<Rightarrow> string \<Rightarrow> bool" where
  "startsWith s p = (take (length p) s = p)"

text \<open>\<^verbatim>\<open>s.includes(sub)\<close>: literal, case-sensitive containment.\<close>

fun includesStr :: "string \<Rightarrow> string \<Rightarrow> bool" where
  "includesStr [] sub = (sub = [])"
| "includesStr (c # cs) sub = (startsWith (c # cs) sub \<or> includesStr cs sub)"

text \<open>\<^verbatim>\<open>s.split('/')\<close>: never empty; \<^verbatim>\<open>''.split('/')\<close> is \<^verbatim>\<open>['']\<close>.\<close>

fun split_slash :: "string \<Rightarrow> string list" where
  "split_slash [] = [] # []"
| "split_slash (c # cs) =
     (if c = CHR ''/'' then [] # split_slash cs
      else (case split_slash cs of
              [] \<Rightarrow> [c] # []
            | p # ps \<Rightarrow> (c # p) # ps))"

text \<open>\<^verbatim>\<open>s.split('/').filter((part) => part)\<close>: the empty string is the only falsy string.\<close>

definition segments :: "string \<Rightarrow> string list" where
  "segments s = filter (\<lambda>part. part \<noteq> []) (split_slash s)"

text \<open>\<^verbatim>\<open>parts.join('/')\<close>\<close>

fun join_slash :: "string list \<Rightarrow> string" where
  "join_slash [] = []"
| "join_slash [p] = p"
| "join_slash (p # q # ps) = p @ CHR ''/'' # join_slash (q # ps)"

text \<open>
  Values a handler or a constructor can throw. \<^verbatim>\<open>error instanceof Error\<close> holds for
  \<open>JsError\<close> (with its \<^verbatim>\<open>message\<close>) and fails for \<open>NonError\<close>.
\<close>

datatype thrown = JsError string | NonError

subsection \<open>The built-in \<^verbatim>\<open>decodeURIComponent\<close>\<close>

text \<open>
  The ECMAScript operation \<^verbatim>\<open>Decode\<close> with an empty reserved set. An escape is \<open>%\<close> and two
  hexadecimal digits; an octet below 128 is that character; an octet of the form
  \<open>110xxxxx\<close>, \<open>1110xxxx\<close> or \<open>11110xxx\<close> must be followed by one, two or three escaped
  continuation octets \<open>10xxxxxx\<close>, and the octets must be the UTF-8 encoding of a code
  point. Anything else raises \<^verbatim>\<open>URIError\<close>, which is \<open>None\<close> here. The result holds the
  decoded octets themselves, since a string is represented by its UTF-8 bytes.
\<close>

definition hexDigit :: "char \<Rightarrow> nat option" where
  "hexDigit c =
     (if c \<in> set ''0123456789'' then Some (of_char c - 48)
      else if c \<in> set ''abcdef'' then Some (of_char c - 87)
      else if c \<in> set ''ABCDEF'' then Some (of_char c - 55)
      else None)"

text \<open>Reads one escape \<open>%XY\<close> at the head of the string: its octet and the rest.\<close>

fun readEscape :: "string \<Rightarrow> (nat \<times> string) option" where
  "readEscape (p # x # y # rest) =
     (if p = CHR ''%'' then
        (case (hexDigit x, hexDigit y) of
           (Some h, Some l) \<Rightarrow> Some (16 * h + l, rest)
         | _ \<Rightarrow> None)
      else None)"
| "readEscape _ = None"

text \<open>Reads \<open>n\<close> escaped continuation octets (\<open>10xxxxxx\<close>).\<close>

fun readContinuations :: "nat \<Rightarrow> string \<Rightarrow> (nat list \<times> string) option" where
  "readContinuations 0 s = Some ([], s)"
| "readContinuations (Suc n) s =
     (case readEscape s of
        None \<Rightarrow> None
      | Some (b, rest) \<Rightarrow>
          if 128 \<le> b \<and> b < 192 then
            (case readContinuations n rest of
               None \<Rightarrow> None
             | Some (bs, rest') \<Rightarrow> Some (b # bs, rest'))
          else None)"

text \<open>The number of leading one bits of a non-ASCII octet.\<close>

definition leadingOnes :: "nat \<Rightarrow> nat" where
  "leadingOnes b =
     (if b < 192 then 1 else if b < 224 then 2 else if b < 240 then 3
      else if b < 248 then 4 else 5)"

text \<open>Well-formed UTF-8 byte sequences of one code point (no overlong form, no surrogate,
  nothing above U+10FFFF).\<close>

fun validUtf8 :: "nat list \<Rightarrow> bool" where
  "validUtf8 [a, b] = (194 \<le> a \<and> a \<le> 223)"
| "validUtf8 [a, b, c] =
     (if a = 224 then 160 \<le> b
      else if a = 237 then b \<le> 159
      else True)"
| "validUtf8 [a, b, c, d] =
     (if a = 240 then 144 \<le> b
      else if a = 244 then b \<le> 143
      else a < 244)"
| "validUtf8 _ = False"

function decodeURIComponent :: "string \<Rightarrow> string option" where
  "decodeURIComponent [] = Some []"
| "decodeURIComponent (c # cs) =
     (if c \<noteq> CHR ''%'' then map_option ((#) c) (decodeURIComponent cs)
      else
        (case readEscape (c # cs) of
           None \<Rightarrow> None
         | Some (b, rest) \<Rightarrow>
             if b < 128 then map_option ((#) (char_of b)) (decodeURIComponent (drop 2 cs))
             else if leadingOnes b = 1 \<or> leadingOnes b > 4 then None
             else
               (case readContinuations (leadingOnes b - 1) rest of
                  None \<Rightarrow> None
                | Some (bs, rest') \<Rightarrow>
                    if validUtf8 (b # bs) then
                      map_option ((@) (map char_of (b # bs)))
                        (decodeURIComponent (drop (2 + 3 * (leadingOnes b - 1)) cs))
                    else None)))"
  by pat_completeness auto

termination
  by (relation "measure length") auto

section \<open>Route matching (Router.ts)\<close>

text \<open>
  The captured parameters, \<^verbatim>\<open>Record<string, string>\<close>, start as the plain object \<^verbatim>\<open>{}\<close>: a
  map of its own properties, on top of the members it inherits from \<^verbatim>\<open>Object.prototype\<close>.
\<close>

type_synonym params = "string \<rightharpoonup> string"

definition objectPrototypeMembers :: "string list" where
  "objectPrototypeMembers =
     [''constructor'', ''__defineGetter__'', ''__defineSetter__'', ''hasOwnProperty'',
      ''__lookupGetter__'', ''__lookupSetter__'', ''isPrototypeOf'', ''propertyIsEnumerable'',
      ''toString'', ''valueOf'', ''__proto__'', ''toLocaleString'']"

text \<open>
  \<^verbatim>\<open>params[name] = v\<close> with a string \<open>v\<close>. The inherited \<^verbatim>\<open>__proto__\<close> is an accessor whose
  setter ignores a value that is neither an object nor \<^verbatim>\<open>null\<close>: the assignment changes
  nothing. Every other name becomes an own property; the other inherited members are
  writable data properties, which an assignment shadows.
\<close>

definition setProperty :: "params \<Rightarrow> string \<Rightarrow> string \<Rightarrow> params" where
  "setProperty params name v = (if name = ''__proto__'' then params else params(name \<mapsto> v))"

text \<open>
  The result of \<^verbatim>\<open>matchRoute\<close>: \<open>Inr None\<close> is \<^verbatim>\<open>null\<close>, \<open>Inr (Some params)\<close> a match,
  \<open>Inl\<close> the \<^verbatim>\<open>URIError\<close> that \<^verbatim>\<open>decodeURIComponent\<close> raises (nothing in \<^verbatim>\<open>matchRoute\<close>
  catches it).
\<close>

definition uriError :: thrown where
  "uriError = JsError ''URI malformed''"

text \<open>The standard loop over the segments, for routes of the request's length.\<close>

fun standardLoop :: "(string \<times> string) list \<Rightarrow> params \<Rightarrow> thrown + params option" where
  "standardLoop [] params = Inr (Some params)"
| "standardLoop ((routePart, pathPart) # rest) params =
     (if startsWith routePart '':'' then
        (case decodeURIComponent pathPart of
           None \<Rightarrow> Inl uriError
         | Some v \<Rightarrow> standardLoop rest (setProperty params (drop 1 routePart) v))
      else if routePart \<noteq> pathPart then Inr None
      else standardLoop rest params)"

definition standardMatch :: "string list \<Rightarrow> string list \<Rightarrow> thrown + params option" where
  "standardMatch routeParts pathParts =
     (if length routeParts \<noteq> length pathParts then Inr None
      else standardLoop (zip routeParts pathParts) Map.empty)"

text \<open>The loop over the segments before the last one; \<open>False\<close> is its \<^verbatim>\<open>return null\<close>.\<close>

definition literalPartsMatch :: "string list \<Rightarrow> string list \<Rightarrow> nat \<Rightarrow> bool" where
  "literalPartsMatch routeParts pathParts lastParamIndex =
     list_all (\<lambda>i. \<not> (i \<ge> length pathParts \<or> routeParts ! i \<noteq> pathParts ! i))
       [0..<lastParamIndex]"

definition matchRoute :: "string \<Rightarrow> string \<Rightarrow> thrown + params option" where
  "matchRoute pathname routePath =
     (let routeParts = segments routePath;
          pathParts = segments pathname
      in if routeParts \<noteq> [] \<and> startsWith (last routeParts) '':'' then
           (let lastParamIndex = length routeParts - 1
            in if \<not> literalPartsMatch routeParts pathParts lastParamIndex then Inr None
               else if length pathParts \<ge> length routeParts then
                 (case decodeURIComponent (join_slash (drop lastParamIndex pathParts)) of
                    None \<Rightarrow> Inl uriError
                  | Some v \<Rightarrow>
                      Inr (Some (setProperty Map.empty (drop 1 (routeParts ! lastParamIndex)) v)))
               else standardMatch routeParts pathParts)
         else standardMatch routeParts pathParts)"

section \<open>Topic route matching (SocketIOServer.ts)\<close>

text \<open>\<^verbatim>\<open>xs.findIndex(p)\<close>: the first index whose element satisfies \<open>p\<close>, or \<open>-1\<close>.\<close>

fun findIndex :: "('a \<Rightarrow> bool) \<Rightarrow> 'a list \<Rightarrow> int" where
  "findIndex p [] = -1"
| "findIndex p (x # xs) =
     (if p x then 0 else (let i = findIndex p xs in if i = -1 then -1 else i + 1))"

definition matchTimezoneRoute :: "string \<Rightarrow> string \<Rightarrow> params option" where
  "matchTimezoneRoute timezone routePath =
     (let routeParts = segments routePath;
          timezoneParamIndex = findIndex (\<lambda>part. part = '':timezone'') routeParts
      in if timezoneParamIndex \<noteq> -1 then Some [''timezone'' \<mapsto> timezone] else None)"

section \<open>The routing registry\<close>

text \<open>\<^verbatim>\<open>xs.find(p)\<close> returns the first element that satisfies \<open>p\<close>, and the code then
  assigns to fields of that object: an update of the first such element of the list.\<close>

fun update_first :: "('a \<Rightarrow> bool) \<Rightarrow> ('a \<Rightarrow> 'a) \<Rightarrow> 'a list \<Rightarrow> 'a list" where
  "update_first p f [] = []"
| "update_first p f (x # xs) = (if p x then f x # xs else x # update_first p f xs)"

text \<open>\<^verbatim>\<open>arr[i] = v\<close> on a JavaScript array: an index beyond the end extends the array, and
  the skipped positions are holes, which read as \<^verbatim>\<open>undefined\<close> (\<open>None\<close>).\<close>

definition array_set :: "'a option list \<Rightarrow> nat \<Rightarrow> 'a \<Rightarrow> 'a option list" where
  "array_set xs i v =
     (if i < length xs then xs[i := Some v]
      else xs @ replicate (i - length xs) None @ [Some v])"

datatype paramKind = ParamKind | ServiceKind

text \<open>Classes (constructor functions) are values of the type \<open>'c\<close>.\<close>

record 'c ParameterMetadata =
  p_index :: nat
  p_type :: paramKind
  p_name :: "string option"
  p_serviceType :: "'c option"

record 'c RouteMetadata =
  r_method :: string
  r_path :: string
  r_handler :: string
  r_paramNames :: "string option list"
  r_parameters :: "'c ParameterMetadata list"

record 'c ControllerMetadata =
  routes :: "'c RouteMetadata list"

record 'c WebSocketMetadata =
  ws_path :: string
  ws_controllerClass :: 'c
  ws_parameters :: "'c ParameterMetadata list"

text \<open>The two maps of the registry. \<^verbatim>\<open>webSockets\<close> is iterated by the socket server, so it
  keeps the insertion order of a JavaScript \<^verbatim>\<open>Map\<close>.\<close>

record 'c RoutingRegistry =
  controllers :: "'c \<rightharpoonup> 'c ControllerMetadata"
  webSockets :: "('c \<times> 'c WebSocketMetadata) list"

definition emptyRegistry :: "'c RoutingRegistry" where
  "emptyRegistry = \<lparr>controllers = Map.empty, webSockets = []\<rparr>"

text \<open>
  The reflection metadata is a parameter. A declared parameter type is a class that
  \<^verbatim>\<open>isServiceType\<close> accepts, \<^verbatim>\<open>String\<close>, or anything else (another built-in type, or
  nothing). \<open>reflect target handler\<close> is the list
  \<^verbatim>\<open>Reflect.getMetadata('design:paramtypes', target.prototype, handler) || []\<close>. An exception
  of the reflection call is caught by the code and leaves the route as it is, which is the
  empty list here.
\<close>

datatype 'c declaredType = ServiceClass 'c | StringType | OtherType

type_synonym 'c reflection = "'c \<Rightarrow> string \<Rightarrow> 'c declaredType list"

fun autoDetectLoop ::
  "nat \<Rightarrow> 'c declaredType list \<Rightarrow> 'c ParameterMetadata list \<Rightarrow> 'c ParameterMetadata list" where
  "autoDetectLoop i [] ps = ps"
| "autoDetectLoop i (paramType # rest) ps =
     autoDetectLoop (Suc i) rest
       (case paramType of
          ServiceClass c \<Rightarrow>
            (case find (\<lambda>p. p_index p = i) ps of
               None \<Rightarrow> ps @ [\<lparr>p_index = i, p_type = ServiceKind, p_name = None,
                               p_serviceType = Some c\<rparr>]
             | Some existingParam \<Rightarrow> ps)
        | _ \<Rightarrow> ps)"

definition autoDetectServiceParameters ::
  "'c reflection \<Rightarrow> 'c \<Rightarrow> string \<Rightarrow> 'c RouteMetadata \<Rightarrow> 'c RouteMetadata" where
  "autoDetectServiceParameters reflect target handler route =
     route\<lparr>r_parameters := autoDetectLoop 0 (reflect target handler) (r_parameters route)\<rparr>"

text \<open>\<^verbatim>\<open>if (!this.controllers.has(target)) this.controllers.set(target, { routes: [] })\<close>
  followed by \<^verbatim>\<open>this.controllers.get(target)!\<close>.\<close>

definition metadataOf :: "'c RoutingRegistry \<Rightarrow> 'c \<Rightarrow> 'c ControllerMetadata" where
  "metadataOf reg target =
     (case controllers reg target of None \<Rightarrow> \<lparr>routes = []\<rparr> | Some metadata \<Rightarrow> metadata)"

definition setRoutes ::
  "'c RoutingRegistry \<Rightarrow> 'c \<Rightarrow> 'c RouteMetadata list \<Rightarrow> 'c RoutingRegistry" where
  "setRoutes reg target rs =
     reg\<lparr>controllers := (controllers reg)(target \<mapsto> (metadataOf reg target)\<lparr>routes := rs\<rparr>)\<rparr>"

definition registerRoute ::
  "'c reflection \<Rightarrow> 'c \<Rightarrow> string \<Rightarrow> string \<Rightarrow> string \<Rightarrow> 'c RoutingRegistry
     \<Rightarrow> 'c RoutingRegistry" where
  "registerRoute reflect target method path handler reg =
     (let rs = routes (metadataOf reg target)
      in case find (\<lambda>route. r_handler route = handler) rs of
           Some existingRoute \<Rightarrow>
             setRoutes reg target
               (update_first (\<lambda>route. r_handler route = handler)
                  (\<lambda>route. route\<lparr>r_method := method, r_path := path\<rparr>) rs)
         | None \<Rightarrow>
             setRoutes reg target
               (rs @ [autoDetectServiceParameters reflect target handler
                        \<lparr>r_method = method, r_path = path, r_handler = handler,
                         r_paramNames = [], r_parameters = []\<rparr>]))"

text \<open>The find-or-create of a route that both parameter registrations start with.\<close>

definition findOrCreateRoute :: "string \<Rightarrow> 'c RouteMetadata list \<Rightarrow> 'c RouteMetadata list" where
  "findOrCreateRoute handler rs =
     (case find (\<lambda>r. r_handler r = handler) rs of
        Some route \<Rightarrow> rs
      | None \<Rightarrow> rs @ [\<lparr>r_method = [], r_path = [], r_handler = handler,
                       r_paramNames = [], r_parameters = []\<rparr>])"

definition upsertParam ::
  "nat \<Rightarrow> string \<Rightarrow> 'c ParameterMetadata list \<Rightarrow> 'c ParameterMetadata list" where
  "upsertParam paramIndex paramName ps =
     (case find (\<lambda>p. p_index p = paramIndex) ps of
        Some existingParam \<Rightarrow>
          update_first (\<lambda>p. p_index p = paramIndex)
            (\<lambda>p. p\<lparr>p_type := ParamKind, p_name := Some paramName\<rparr>) ps
      | None \<Rightarrow> ps @ [\<lparr>p_index = paramIndex, p_type = ParamKind, p_name = Some paramName,
                       p_serviceType = None\<rparr>])"

definition upsertService ::
  "nat \<Rightarrow> 'c \<Rightarrow> 'c ParameterMetadata list \<Rightarrow> 'c ParameterMetadata list" where
  "upsertService paramIndex serviceType ps =
     (case find (\<lambda>p. p_index p = paramIndex) ps of
        Some existingParam \<Rightarrow>
          update_first (\<lambda>p. p_index p = paramIndex)
            (\<lambda>p. p\<lparr>p_type := ServiceKind, p_serviceType := Some serviceType\<rparr>) ps
      | None \<Rightarrow> ps @ [\<lparr>p_index = paramIndex, p_type = ServiceKind, p_name = None,
                       p_serviceType = Some serviceType\<rparr>])"

definition registerParam ::
  "'c \<Rightarrow> string \<Rightarrow> string \<Rightarrow> nat \<Rightarrow> 'c RoutingRegistry \<Rightarrow> 'c RoutingRegistry" where
  "registerParam target handler paramName paramIndex reg =
     setRoutes reg target
       (update_first (\<lambda>r. r_handler r = handler)
          (\<lambda>route. route\<lparr>r_paramNames := array_set (r_paramNames route) paramIndex paramName,
                          r_parameters := upsertParam paramIndex paramName (r_parameters route)\<rparr>)
          (findOrCreateRoute handler (routes (metadataOf reg target))))"

definition registerServiceParameter ::
  "'c \<Rightarrow> string \<Rightarrow> nat \<Rightarrow> 'c \<Rightarrow> 'c RoutingRegistry \<Rightarrow> 'c RoutingRegistry" where
  "registerServiceParameter target handler paramIndex serviceType reg =
     setRoutes reg target
       (update_first (\<lambda>r. r_handler r = handler)
          (\<lambda>route. route\<lparr>r_parameters :=
                            upsertService paramIndex serviceType (r_parameters route)\<rparr>)
          (findOrCreateRoute handler (routes (metadataOf reg target))))"

text \<open>\<^verbatim>\<open>map.set(key, value)\<close> on a JavaScript \<^verbatim>\<open>Map\<close>: a key that is present keeps its
  place.\<close>

fun map_set :: "('k \<times> 'v) list \<Rightarrow> 'k \<Rightarrow> 'v \<Rightarrow> ('k \<times> 'v) list" where
  "map_set [] k v = [(k, v)]"
| "map_set ((k', v') # rest) k v =
     (if k' = k then (k', v) # rest else (k', v') # map_set rest k v)"

text \<open>The constructor's declared parameter types:
  \<^verbatim>\<open>Reflect.getMetadata('design:paramtypes', target) || []\<close>.\<close>

type_synonym 'c ctorReflection = "'c \<Rightarrow> 'c declaredType list"

fun autoDetectWebSocketLoop ::
  "nat \<Rightarrow> 'c declaredType list \<Rightarrow> 'c ParameterMetadata list \<Rightarrow> 'c ParameterMetadata list" where
  "autoDetectWebSocketLoop i [] ps = ps"
| "autoDetectWebSocketLoop i (paramType # rest) ps =
     autoDetectWebSocketLoop (Suc i) rest
       (case paramType of
          ServiceClass c \<Rightarrow> ps @ [\<lparr>p_index = i, p_type = ServiceKind, p_name = None,
                                   p_serviceType = Some c\<rparr>]
        | StringType \<Rightarrow> ps @ [\<lparr>p_index = i, p_type = ParamKind, p_name = None,
                               p_serviceType = None\<rparr>]
        | OtherType \<Rightarrow> ps)"

definition registerWebSocketRoute ::
  "'c ctorReflection \<Rightarrow> 'c \<Rightarrow> string \<Rightarrow> 'c RoutingRegistry \<Rightarrow> 'c RoutingRegistry" where
  "registerWebSocketRoute reflectCtor target path reg =
     reg\<lparr>webSockets :=
           map_set (webSockets reg) target
             \<lparr>ws_path = path, ws_controllerClass = target,
              ws_parameters = autoDetectWebSocketLoop 0 (reflectCtor target) []\<rparr>\<rparr>"

definition registerWebSocketParam ::
  "'c \<Rightarrow> string \<Rightarrow> nat \<Rightarrow> 'c RoutingRegistry \<Rightarrow> 'c RoutingRegistry" where
  "registerWebSocketParam target paramName paramIndex reg =
     (case map_of (webSockets reg) target of
        None \<Rightarrow> reg
      | Some metadata \<Rightarrow>
          reg\<lparr>webSockets :=
                map_set (webSockets reg) target
                  (metadata\<lparr>ws_parameters :=
                              upsertParam paramIndex paramName (ws_parameters metadata)\<rparr>)\<rparr>)"

definition getAllWebSockets :: "'c RoutingRegistry \<Rightarrow> ('c \<times> 'c WebSocketMetadata) list" where
  "getAllWebSockets reg = webSockets reg"

definition getControllerMetadata :: "'c RoutingRegistry \<Rightarrow> 'c \<Rightarrow> 'c ControllerMetadata option" where
  "getControllerMetadata reg target = controllers reg target"

text \<open>Reading the registry: the route of a handler and its parameter specs.\<close>

definition routeOf :: "'c RoutingRegistry \<Rightarrow> 'c \<Rightarrow> string \<Rightarrow> 'c RouteMetadata option" where
  "routeOf reg target handler =
     find (\<lambda>r. r_handler r = handler) (routes (metadataOf reg target))"

definition parametersOf :: "'c RoutingRegistry \<Rightarrow> 'c \<Rightarrow> string \<Rightarrow> 'c ParameterMetadata list" where
  "parametersOf reg target handler =
     (case routeOf reg target handler of None \<Rightarrow> [] | Some r \<Rightarrow> r_parameters r)"

text \<open>A run of registrations, as decorators and constructors issue them.\<close>

datatype 'c registration =
    RegisterRoute 'c string string string
  | RegisterParam 'c string string nat
  | RegisterServiceParameter 'c string nat 'c

fun register :: "'c reflection \<Rightarrow> 'c registration \<Rightarrow> 'c RoutingRegistry \<Rightarrow> 'c RoutingRegistry" where
  "register reflect (RegisterRoute target method path handler) reg =
     registerRoute reflect target method path handler reg"
| "register reflect (RegisterParam target handler paramName paramIndex) reg =
     registerParam target handler paramName paramIndex reg"
| "register reflect (RegisterServiceParameter target handler paramIndex serviceType) reg =
     registerServiceParameter target handler paramIndex serviceType reg"

definition registerAll ::
  "'c reflection \<Rightarrow> 'c registration list \<Rightarrow> 'c RoutingRegistry \<Rightarrow> 'c RoutingRegistry" where
  "registerAll reflect ops reg = fold (register reflect) ops reg"

text \<open>The invariant of the data model: in every route, one spec per positional index.\<close>

definition paramsUnique :: "'c RoutingRegistry \<Rightarrow> bool" where
  "paramsUnique reg =
     (\<forall>target metadata. controllers reg target = Some metadata \<longrightarrow>
        (\<forall>r \<in> set (routes metadata). distinct (map p_index (r_parameters r))))"

text \<open>And one route per handler name in every controller.\<close>

definition handlersUnique :: "'c RoutingRegistry \<Rightarrow> bool" where
  "handlersUnique reg =
     (\<forall>target metadata. controllers reg target = Some metadata \<longrightarrow>
        distinct (map r_handler (routes metadata)))"

text \<open>Whether \<^verbatim>\<open>isServiceType\<close> accepts a declared type.\<close>

definition isServiceType :: "'c declaredType \<Rightarrow> bool" where
  "isServiceType t = (case t of ServiceClass c \<Rightarrow> True | _ \<Rightarrow> False)"

text \<open>A run of \<^verbatim>\<open>registerParam\<close> calls for one handler, as its parameter decorators issue
  them, and the routes that the registry holds for a handler.\<close>

definition registerParams ::
  "'c \<Rightarrow> string \<Rightarrow> (string \<times> nat) list \<Rightarrow> 'c RoutingRegistry \<Rightarrow> 'c RoutingRegistry" where
  "registerParams target handler ps reg =
     fold (\<lambda>(paramName, paramIndex). registerParam target handler paramName paramIndex) ps reg"

definition routesFor :: "'c RoutingRegistry \<Rightarrow> 'c \<Rightarrow> string \<Rightarrow> 'c RouteMetadata list" where
  "routesFor reg target handler =
     filter (\<lambda>r. r_handler r = handler) (routes (metadataOf reg target))"

section \<open>The service registry\<close>

text \<open>
  JavaScript values as far as the registries and the router look at them. An object is
  its address; \<open>JRequest\<close> and \<open>JResponse\<close> are the two objects of the request at hand;
  \<open>JInherited name\<close> is the member of that name of \<^verbatim>\<open>Object.prototype\<close>, a function or, for
  \<^verbatim>\<open>__proto__\<close>, the prototype itself.
\<close>

datatype jsvalue =
    JUndefined | JNull | JBool bool | JNum int | JStr string | JObject nat
  | JRequest | JResponse | JInherited string

text \<open>What \<^verbatim>\<open>if (v)\<close> and \<^verbatim>\<open>!v\<close> test.\<close>

fun truthy :: "jsvalue \<Rightarrow> bool" where
  "truthy JUndefined = False"
| "truthy JNull = False"
| "truthy (JBool b) = b"
| "truthy (JNum n) = (n \<noteq> 0)"
| "truthy (JStr s) = (s \<noteq> [])"
| "truthy (JObject a) = True"
| "truthy JRequest = True"
| "truthy JResponse = True"
| "truthy (JInherited name) = True"

text \<open>
  The map of the registry, and the number of objects it has constructed: the next
  \<^verbatim>\<open>new serviceType()\<close> yields the object of that number, an object that did not exist
  before.
\<close>

record 'c ServiceRegistry =
  services :: "'c \<rightharpoonup> jsvalue"
  constructed :: nat

text \<open>A constructor either throws (\<open>Some\<close> of the thrown value) or returns a new object.\<close>

type_synonym 'c constructors = "'c \<Rightarrow> thrown option"

definition registerService :: "'c \<Rightarrow> jsvalue \<Rightarrow> 'c ServiceRegistry \<Rightarrow> 'c ServiceRegistry" where
  "registerService serviceType serviceInstance sr =
     sr\<lparr>services := (services sr)(serviceType \<mapsto> serviceInstance)\<rparr>"

definition getService :: "'c ServiceRegistry \<Rightarrow> 'c \<Rightarrow> jsvalue" where
  "getService sr serviceType =
     (case services sr serviceType of None \<Rightarrow> JUndefined | Some v \<Rightarrow> v)"

definition getOrCreateService ::
  "'c constructors \<Rightarrow> 'c ServiceRegistry \<Rightarrow> 'c \<Rightarrow> thrown + (jsvalue \<times> 'c ServiceRegistry)" where
  "getOrCreateService ctorThrows sr serviceType =
     (let service = getService sr serviceType
      in if \<not> truthy service then
           (case ctorThrows serviceType of
              Some e \<Rightarrow> Inl e
            | None \<Rightarrow>
                (let created = JObject (constructed sr)
                 in Inr (created,
                         sr\<lparr>services := (services sr)(serviceType \<mapsto> created),
                            constructed := Suc (constructed sr)\<rparr>)))
         else Inr (service, sr))"

definition clear :: "'c ServiceRegistry \<Rightarrow> 'c ServiceRegistry" where
  "clear sr = sr\<lparr>services := Map.empty\<rparr>"

section \<open>The HTTP router\<close>

text \<open>
  What a call does: it returns a value (\<open>None\<close> is \<^verbatim>\<open>undefined\<close>) or throws. The type
  \<open>'r\<close> is the type of the values handlers return.
\<close>

datatype 'r outcome = Returns "'r option" | Throws thrown

type_synonym 'r handlerFn = "jsvalue list \<Rightarrow> 'r outcome"

text \<open>A controller instance: its class and its members; \<^verbatim>\<open>controller[name]\<close> is \<open>None\<close> when
  the member is absent or falsy.\<close>

record ('c, 'r) ControllerInstance =
  ci_constructor :: 'c
  ci_members :: "string \<rightharpoonup> 'r handlerFn"

text \<open>
  The response is the sequence of the calls made on \<^verbatim>\<open>res\<close>. A body is the value given to
  \<^verbatim>\<open>JSON.stringify\<close>: a handler's result, or an object of string fields in which a field
  whose value is \<^verbatim>\<open>undefined\<close> has been left out, as \<^verbatim>\<open>JSON.stringify\<close> does.
\<close>

datatype 'r body = Json 'r | JsonObject "(string \<times> string) list"

datatype 'r resOp = SetHeader string string | SetStatusCode nat | End "'r body"

definition sendJsonResponse :: "'r resOp list \<Rightarrow> nat \<Rightarrow> 'r body \<Rightarrow> 'r resOp list" where
  "sendJsonResponse res statusCode data =
     res @ [SetStatusCode statusCode, SetHeader ''Content-Type'' ''application/json'', End data]"

text \<open>\<^verbatim>\<open>{ error, message, ...additionalData }\<close>: a later key replaces the value of an equal
  earlier key and keeps its place.\<close>

fun assign :: "(string \<times> 'v) list \<Rightarrow> string \<times> 'v \<Rightarrow> (string \<times> 'v) list" where
  "assign [] kv = [kv]"
| "assign ((k', v') # rest) (k, v) =
     (if k' = k then (k', v) # rest else (k', v') # assign rest (k, v))"

definition stringifyFields :: "(string \<times> string option) list \<Rightarrow> (string \<times> string) list" where
  "stringifyFields kvs =
     concat (map (\<lambda>(k, v). case v of None \<Rightarrow> [] | Some s \<Rightarrow> [(k, s)]) kvs)"

definition sendErrorResponse ::
  "'r resOp list \<Rightarrow> nat \<Rightarrow> string \<Rightarrow> string \<Rightarrow> (string \<times> string option) list
     \<Rightarrow> 'r resOp list" where
  "sendErrorResponse res statusCode error message additionalData =
     sendJsonResponse res statusCode
       (JsonObject (stringifyFields
          (foldl assign [(''error'', Some error), (''message'', Some message)] additionalData)))"

text \<open>The headers that \<^verbatim>\<open>handleRequest\<close> sets before it looks for a route.\<close>

definition corsHeaders :: "'r resOp list" where
  "corsHeaders =
     [SetHeader ''Access-Control-Allow-Origin'' ''*'',
      SetHeader ''Access-Control-Allow-Methods'' ''GET, POST, PUT, DELETE'',
      SetHeader ''Access-Control-Allow-Headers'' ''Content-Type'',
      SetHeader ''Content-Type'' ''application/json'']"

subsection \<open>Parameter extraction\<close>

text \<open>An argument array under construction: \<^verbatim>\<open>params[i] = v\<close> may leave holes, which the
  call passes as \<^verbatim>\<open>undefined\<close>.\<close>

definition toArguments :: "jsvalue option list \<Rightarrow> jsvalue list" where
  "toArguments arr = map (\<lambda>x. case x of None \<Rightarrow> JUndefined | Some v \<Rightarrow> v) arr"

text \<open>\<^verbatim>\<open>urlParams[name]\<close>: the own property, else the inherited member, else \<^verbatim>\<open>undefined\<close>.\<close>

definition getProperty :: "params \<Rightarrow> string \<Rightarrow> jsvalue" where
  "getProperty urlParams name =
     (case urlParams name of
        Some v \<Rightarrow> JStr v
      | None \<Rightarrow> if name \<in> set objectPrototypeMembers then JInherited name else JUndefined)"

text \<open>\<^verbatim>\<open>name ? urlParams[name] : undefined\<close>, for a name that may be absent or empty.\<close>

definition urlParam :: "params \<Rightarrow> string option \<Rightarrow> jsvalue" where
  "urlParam urlParams paramName =
     (case paramName of
        None \<Rightarrow> JUndefined
      | Some n \<Rightarrow> if n = [] then JUndefined else getProperty urlParams n)"

text \<open>The loop over the sorted parameter specs. A constructor that throws ends it; the
  services created before stay cached.\<close>

fun fillParameters ::
  "'c constructors \<Rightarrow> params \<Rightarrow> 'c ParameterMetadata list \<Rightarrow> jsvalue option list
     \<Rightarrow> 'c ServiceRegistry \<Rightarrow> (thrown + jsvalue option list) \<times> 'c ServiceRegistry" where
  "fillParameters ctorThrows urlParams [] arr sr = (Inr arr, sr)"
| "fillParameters ctorThrows urlParams (param # rest) arr sr =
     (case p_type param of
        ParamKind \<Rightarrow>
          fillParameters ctorThrows urlParams rest
            (array_set arr (p_index param) (urlParam urlParams (p_name param))) sr
      | ServiceKind \<Rightarrow>
          (case p_serviceType param of
             None \<Rightarrow>
               fillParameters ctorThrows urlParams rest
                 (array_set arr (p_index param) JUndefined) sr
           | Some serviceType \<Rightarrow>
               (case getOrCreateService ctorThrows sr serviceType of
                  Inl e \<Rightarrow> (Inl e, sr)
                | Inr (service, sr') \<Rightarrow>
                    fillParameters ctorThrows urlParams rest
                      (array_set arr (p_index param) service) sr')))"

text \<open>The legacy convention: the request, the response, then the captured parameters in
  the order of \<^verbatim>\<open>paramNames\<close>.\<close>

definition legacyParameters :: "params \<Rightarrow> string option list \<Rightarrow> jsvalue list" where
  "legacyParameters urlParams paramNames =
     [JRequest, JResponse] @
     concat (map (\<lambda>paramName.
                    case urlParam urlParams paramName of
                      JUndefined \<Rightarrow> []
                    | v \<Rightarrow> [v]) paramNames)"

definition extractParameters ::
  "'c constructors \<Rightarrow> params \<Rightarrow> 'c RouteMetadata \<Rightarrow> 'c ServiceRegistry
     \<Rightarrow> (thrown + jsvalue list) \<times> 'c ServiceRegistry" where
  "extractParameters ctorThrows urlParams route sr =
     (if r_parameters route = [] then (Inr (legacyParameters urlParams (r_paramNames route)), sr)
      else
        (let sortedParams = sort_key p_index (r_parameters route)
         in case fillParameters ctorThrows urlParams sortedParams [] sr of
              (Inl e, sr') \<Rightarrow> (Inl e, sr')
            | (Inr arr, sr') \<Rightarrow> (Inr (toArguments arr), sr')))"

subsection \<open>Dispatch\<close>

text \<open>
  The two loops of \<^verbatim>\<open>handleRequest\<close>, up to the point where a handler is found: the first
  route, in the order of the controllers and of their routes, whose method is the
  request's, whose pattern matches and whose handler is a member of the controller.
  \<open>Inl\<close> is an exception of \<^verbatim>\<open>matchRoute\<close>, which leaves \<^verbatim>\<open>handleRequest\<close>.
\<close>

fun findInRoutes ::
  "('c, 'r) ControllerInstance \<Rightarrow> 'c RouteMetadata list \<Rightarrow> string \<Rightarrow> string
     \<Rightarrow> thrown + ('c RouteMetadata \<times> params \<times> 'r handlerFn) option" where
  "findInRoutes controller [] method pathname = Inr None"
| "findInRoutes controller (route # rest) method pathname =
     (if r_method route \<noteq> method then findInRoutes controller rest method pathname
      else
        (case matchRoute pathname (r_path route) of
           Inl e \<Rightarrow> Inl e
         | Inr None \<Rightarrow> findInRoutes controller rest method pathname
         | Inr (Some urlParams) \<Rightarrow>
             (case ci_members controller (r_handler route) of
                None \<Rightarrow> findInRoutes controller rest method pathname
              | Some handler \<Rightarrow> Inr (Some (route, urlParams, handler)))))"

fun findHandler ::
  "'c RoutingRegistry \<Rightarrow> ('c, 'r) ControllerInstance list \<Rightarrow> string \<Rightarrow> string
     \<Rightarrow> thrown + ('c RouteMetadata \<times> params \<times> 'r handlerFn) option" where
  "findHandler reg [] method pathname = Inr None"
| "findHandler reg (controller # rest) method pathname =
     (case getControllerMetadata reg (ci_constructor controller) of
        None \<Rightarrow> findHandler reg rest method pathname
      | Some metadata \<Rightarrow>
          (case findInRoutes controller (routes metadata) method pathname of
             Inl e \<Rightarrow> Inl e
           | Inr None \<Rightarrow> findHandler reg rest method pathname
           | Inr (Some found) \<Rightarrow> Inr (Some found)))"

text \<open>The body of the \<^verbatim>\<open>try\<close>: the arguments are extracted and the handler is called.\<close>

definition invokeHandler ::
  "'c constructors \<Rightarrow> 'c ServiceRegistry \<Rightarrow> 'c RouteMetadata \<Rightarrow> params \<Rightarrow> 'r handlerFn
     \<Rightarrow> 'r outcome \<times> 'c ServiceRegistry" where
  "invokeHandler ctorThrows sr route urlParams handler =
     (case extractParameters ctorThrows urlParams route sr of
        (Inl e, sr') \<Rightarrow> (Throws e, sr')
      | (Inr args, sr') \<Rightarrow> (handler args, sr'))"

definition errorMessageOf :: "thrown \<Rightarrow> string" where
  "errorMessageOf error =
     (case error of
        JsError message \<Rightarrow> message
      | NonError \<Rightarrow> ''An error occurred while processing the request'')"

definition isValidationError :: "string \<Rightarrow> bool" where
  "isValidationError errorMessage =
     (includesStr errorMessage ''timezone'' \<or> includesStr errorMessage ''Invalid'')"

text \<open>The \<^verbatim>\<open>catch\<close> branch.\<close>

definition handleError :: "'r resOp list \<Rightarrow> params \<Rightarrow> thrown \<Rightarrow> 'r resOp list" where
  "handleError res urlParams error =
     (let errorMessage = errorMessageOf error
      in if isValidationError errorMessage then
           sendErrorResponse res 400 ''Invalid timezone'' errorMessage
             [(''requested_timezone'', urlParams ''timezone'')]
         else sendErrorResponse res 500 ''Internal server error'' errorMessage [])"

text \<open>
  \<^verbatim>\<open>handleRequest\<close>: whether the request was handled, the calls made on \<^verbatim>\<open>res\<close>, and the
  service registry afterwards.
\<close>

definition handleRequest ::
  "'c constructors \<Rightarrow> 'c RoutingRegistry \<Rightarrow> ('c, 'r) ControllerInstance list
     \<Rightarrow> 'c ServiceRegistry \<Rightarrow> string \<Rightarrow> string
     \<Rightarrow> thrown + (bool \<times> 'r resOp list \<times> 'c ServiceRegistry)" where
  "handleRequest ctorThrows reg controllerList sr method pathname =
     (case findHandler reg controllerList method pathname of
        Inl e \<Rightarrow> Inl e
      | Inr None \<Rightarrow> Inr (False, corsHeaders, sr)
      | Inr (Some (route, urlParams, handler)) \<Rightarrow>
          (case invokeHandler ctorThrows sr route urlParams handler of
             (Returns None, sr') \<Rightarrow> Inr (True, corsHeaders, sr')
           | (Returns (Some result), sr') \<Rightarrow>
               Inr (True,
                    corsHeaders @ [SetStatusCode 200,
                                   SetHeader ''Content-Type'' ''application/json'',
                                   End (Json result)],
                    sr')
           | (Throws error, sr') \<Rightarrow> Inr (True, handleError corsHeaders urlParams error, sr')))"

text \<open>What the response holds in the end: the last status assigned, the bodies written.\<close>

definition statusCodes :: "'r resOp list \<Rightarrow> nat list" where
  "statusCodes res = concat (map (\<lambda>op. case op of SetStatusCode n \<Rightarrow> [n] | _ \<Rightarrow> []) res)"

definition statusCodeOf :: "'r resOp list \<Rightarrow> nat option" where
  "statusCodeOf res = (if statusCodes res = [] then None else Some (last (statusCodes res)))"

definition bodiesOf :: "'r resOp list \<Rightarrow> 'r body list" where
  "bodiesOf res = concat (map (\<lambda>op. case op of End b \<Rightarrow> [b] | _ \<Rightarrow> []) res)"

text \<open>The callback of \<^verbatim>\<open>http.createServer\<close>: the 404 for a request that was not handled, the
  global handler for an exception.\<close>

definition serverCallback ::
  "'c constructors \<Rightarrow> 'c RoutingRegistry \<Rightarrow> ('c, 'r) ControllerInstance list
     \<Rightarrow> 'c ServiceRegistry \<Rightarrow> string \<Rightarrow> string \<Rightarrow> 'r resOp list \<times> 'c ServiceRegistry" where
  "serverCallback ctorThrows reg controllerList sr method pathname =
     (case handleRequest ctorThrows reg controllerList sr method pathname of
        Inr (handled, res, sr') \<Rightarrow>
          (if \<not> handled then
             (sendErrorResponse res 404 ''Not found''
                ''Use /time/{timezone} endpoint to get current time in a specific timezone''
                [(''example'', Some ''/time/Etc/UTC'')], sr')
           else (res, sr'))
      | Inl e \<Rightarrow>
          (sendErrorResponse corsHeaders 500 ''Internal server error''
             ''An unexpected error occurred'' [], sr))"

section \<open>The timezone service and the controllers\<close>

text \<open>
  The date library is a parameter: whether \<^verbatim>\<open>Intl.DateTimeFormat\<close> accepts an identifier,
  what \<^verbatim>\<open>utcToZonedTime\<close> and \<^verbatim>\<open>format\<close> produce for it (\<open>None\<close> when one of them throws), and
  \<^verbatim>\<open>new Date().toISOString()\<close>.
\<close>

record engine =
  intlAccepts :: "string \<Rightarrow> bool"
  formatNow :: "string \<Rightarrow> string option"
  isoNow :: string

definition isValidTimezone :: "engine \<Rightarrow> string \<Rightarrow> bool" where
  "isValidTimezone e tz = intlAccepts e tz"

definition getTimeInTimezone :: "engine \<Rightarrow> string \<Rightarrow> thrown + string" where
  "getTimeInTimezone e tz =
     (case formatNow e tz of
        Some formatted \<Rightarrow> Inr formatted
      | None \<Rightarrow> Inl (JsError ''Failed to get time in timezone''))"

datatype TimezoneValidationResult = TimezoneResult string | TimezoneError string

definition getValidatedTimeInTimezone :: "engine \<Rightarrow> string \<Rightarrow> TimezoneValidationResult" where
  "getValidatedTimeInTimezone e tz =
     (if \<not> isValidTimezone e tz then
        TimezoneError (''The timezone identifier '' @ [CHR 0x27] @ tz @ [CHR 0x27] @ '' is not valid'')
      else
        (case getTimeInTimezone e tz of
           Inr time \<Rightarrow> TimezoneResult time
         | Inl err \<Rightarrow> TimezoneError ''Failed to get time in timezone''))"

text \<open>The classes of the application.\<close>

datatype appClass = TimezoneController | HealthcheckController | TimezoneService | TimezoneWebSocket

fun className :: "appClass \<Rightarrow> string" where
  "className TimezoneController = ''TimezoneController''"
| "className HealthcheckController = ''HealthcheckController''"
| "className TimezoneService = ''TimezoneService''"
| "className TimezoneWebSocket = ''TimezoneWebSocket''"

text \<open>What the handlers return: \<^verbatim>\<open>{timezone, current_time, timestamp}\<close>,
  \<^verbatim>\<open>{status, timestamp}\<close> and the fixed API description.\<close>

datatype appResult =
    TimezoneResponse string string string
  | HealthResponse string string
  | ApiInfoResponse

text \<open>
  \<^verbatim>\<open>TimezoneController.getTimeByTimezone(timezone, timezoneService)\<close>. The router calls it
  with the captured string and the injected service object; a call on a service that is
  not an object is the \<^verbatim>\<open>TypeError\<close> of JavaScript.
\<close>

definition getTimeByTimezone :: "engine \<Rightarrow> appResult handlerFn" where
  "getTimeByTimezone e args =
     (case args of
        [JStr tz, JObject timezoneService] \<Rightarrow>
          (case getValidatedTimeInTimezone e tz of
             TimezoneError err \<Rightarrow> Throws (JsError err)
           | TimezoneResult time \<Rightarrow> Returns (Some (TimezoneResponse tz time (isoNow e))))
      | _ \<Rightarrow> Throws (JsError ''Cannot read properties of undefined''))"

definition timezoneController :: "engine \<Rightarrow> (appClass, appResult) ControllerInstance" where
  "timezoneController e =
     \<lparr>ci_constructor = TimezoneController,
      ci_members = [''getTimeByTimezone'' \<mapsto> getTimeByTimezone e]\<rparr>"

definition healthcheckController :: "engine \<Rightarrow> (appClass, appResult) ControllerInstance" where
  "healthcheckController e =
     \<lparr>ci_constructor = HealthcheckController,
      ci_members = [''healthcheck'' \<mapsto> (\<lambda>args. Returns (Some (HealthResponse ''OK'' (isoNow e)))),
                    ''root'' \<mapsto> (\<lambda>args. Returns (Some ApiInfoResponse))]\<rparr>"

text \<open>
  The registrations of the application, in the order in which they run: the decorators of
  each class when it is defined (a parameter decorator before the decorator of its
  method, and the parameter decorator of a constructor before the decorator of its
  class), then the constructor of \<^verbatim>\<open>TimezoneController\<close> when the server creates it.
\<close>

definition appRegistrations :: "appClass registration list" where
  "appRegistrations =
     [RegisterParam TimezoneController ''getTimeByTimezone'' ''timezone'' 0,
      RegisterRoute TimezoneController ''GET'' ''/time/:timezone'' ''getTimeByTimezone'',
      RegisterRoute HealthcheckController ''GET'' ''/healthcheck'' ''healthcheck'',
      RegisterRoute HealthcheckController ''GET'' ''/'' ''root'',
      RegisterServiceParameter TimezoneController ''getTimeByTimezone'' 1 TimezoneService]"

definition appRegistry :: "appClass reflection \<Rightarrow> appClass ctorReflection \<Rightarrow> appClass RoutingRegistry" where
  "appRegistry reflect reflectCtor =
     registerAll reflect appRegistrations
       (registerWebSocketRoute reflectCtor TimezoneWebSocket ''/time/live/:timezone''
          (registerWebSocketParam TimezoneWebSocket ''timezone'' 0 emptyRegistry))"

definition appControllers :: "engine \<Rightarrow> (appClass, appResult) ControllerInstance list" where
  "appControllers e = [timezoneController e, healthcheckController e]"

text \<open>No constructor of the application throws.\<close>

definition appConstructors :: "appClass constructors" where
  "appConstructors = (\<lambda>c. None)"

definition emptyServices :: "'c ServiceRegistry" where
  "emptyServices = \<lparr>services = Map.empty, constructed = 0\<rparr>"

text \<open>The route entry of \<^verbatim>\<open>GET /time/:timezone\<close> that these registrations produce.\<close>

definition timeRoute :: "appClass RouteMetadata" where
  "timeRoute =
     \<lparr>r_method = ''GET'', r_path = ''/time/:timezone'', r_handler = ''getTimeByTimezone'',
      r_paramNames = [Some ''timezone''],
      r_parameters =
        [\<lparr>p_index = 0, p_type = ParamKind, p_name = Some ''timezone'', p_serviceType = None\<rparr>,
         \<lparr>p_index = 1, p_type = ServiceKind, p_name = None,
          p_serviceType = Some TimezoneService\<rparr>]\<rparr>"

subsection \<open>Sample collaborators\<close>

text \<open>
  A date library that accepts every identifier and whose formatting throws (the mock of
  the test of \<^verbatim>\<open>getValidatedTimeInTimezone\<close> for internal errors); one that accepts
  \<open>Etc/UTC\<close> only; constructors that throw (the \<^verbatim>\<open>ThrowingService\<close> of the registry's test);
  and a controller whose handler returns \<^verbatim>\<open>undefined\<close>, with its registration.
\<close>

definition failingEngine :: engine where
  "failingEngine = \<lparr>intlAccepts = (\<lambda>tz. True), formatNow = (\<lambda>tz. None), isoNow = ''''\<rparr>"

definition utcEngine :: engine where
  "utcEngine =
     \<lparr>intlAccepts = (\<lambda>tz. tz = ''Etc/UTC''),
      formatNow = (\<lambda>tz. Some ''2023-01-01T12:00:00Z''),
      isoNow = ''2023-01-01T12:00:00.000Z''\<rparr>"

definition throwingConstructors :: "appClass constructors" where
  "throwingConstructors = (\<lambda>c. Some (JsError ''Constructor error''))"

definition pingRegistry :: "nat RoutingRegistry" where
  "pingRegistry = registerRoute (\<lambda>c h. []) 0 ''GET'' ''/ping'' ''ping'' emptyRegistry"

definition pingController :: "(nat, appResult) ControllerInstance" where
  "pingController = \<lparr>ci_constructor = 0, ci_members = [''ping'' \<mapsto> (\<lambda>args. Returns None)]\<rparr>"

section \<open>The socket server and the WebSocket controller\<close>

text \<open>
  Sockets, per-connection records and timers are objects with an identity. A socket is a
  number; a record is its position in the store \<open>ss_clients\<close>, a timer its position in
  \<open>ss_timers\<close>; a controller instance is referred to by its key in
  \<^verbatim>\<open>webSocketInstances\<close>, where it is put once and stays.
\<close>

record SocketIOClient =
  cl_socket :: nat
  cl_timezone :: string
  cl_intervalId :: "nat option"

text \<open>A controller instance: its class, the two constructor arguments it keeps, and its
  set of clients in insertion order.\<close>

record wsController =
  wc_class :: appClass
  wc_timezone :: jsvalue
  wc_timezoneService :: jsvalue
  wc_clients :: "nat list"

text \<open>A timer of \<^verbatim>\<open>setInterval\<close>: its callback sends an update of the controller to the
  client; \<^verbatim>\<open>clearInterval\<close> makes it inactive.\<close>

record timer =
  tm_instance :: string
  tm_client :: nat
  tm_active :: bool

text \<open>The listeners that \<^verbatim>\<open>onConnect\<close> installs on a socket; each closes over the
  controller and the record.\<close>

datatype listenerKind = OnDisconnect | OnGetTime | OnChangeTimezone

text \<open>Payloads: \<^verbatim>\<open>{type: 'time_update', timezone, current_time, timestamp}\<close>,
  \<^verbatim>\<open>{type: 'error', timezone, error, timestamp}\<close> and \<^verbatim>\<open>{message}\<close>.\<close>

datatype payload =
    TimeUpdate string string string
  | UpdateError string string string
  | ServerError string

record socketServer =
  ss_registry :: "appClass RoutingRegistry"
  ss_services :: "appClass ServiceRegistry"
  ss_rooms :: "(nat \<times> string) list"
  ss_instances :: "string \<rightharpoonup> wsController"
  ss_clients :: "SocketIOClient list"
  ss_timers :: "timer list"
  ss_listeners :: "(nat \<times> listenerKind \<times> string \<times> nat) list"
  ss_emitted :: "(nat \<times> string \<times> payload) list"

definition emit :: "nat \<Rightarrow> string \<Rightarrow> payload \<Rightarrow> socketServer \<Rightarrow> socketServer" where
  "emit sock event data w = w\<lparr>ss_emitted := ss_emitted w @ [(sock, event, data)]\<rparr>"

subsection \<open>TimezoneWebSocket\<close>

text \<open>What \<^verbatim>\<open>sendTimeUpdate\<close> emits; a service that is not an object makes the call throw,
  which the \<^verbatim>\<open>catch\<close> turns into the last message.\<close>

definition timeUpdateMessage :: "engine \<Rightarrow> jsvalue \<Rightarrow> string \<Rightarrow> string \<times> payload" where
  "timeUpdateMessage e timezoneService tz =
     (case timezoneService of
        JObject a \<Rightarrow>
          (case getValidatedTimeInTimezone e tz of
             TimezoneResult time \<Rightarrow> (''time-update'', TimeUpdate tz time (isoNow e))
           | TimezoneError err \<Rightarrow> (''error'', UpdateError tz err (isoNow e)))
      | _ \<Rightarrow> (''error'', UpdateError tz ''Failed to get time update'' (isoNow e)))"

text \<open>In the methods below \<open>key\<close> stands for \<^verbatim>\<open>this\<close> and \<open>client\<close> for the record; a key
  without an instance does not occur, and leaves the state as it is.\<close>

definition sendTimeUpdate :: "engine \<Rightarrow> string \<Rightarrow> nat \<Rightarrow> socketServer \<Rightarrow> socketServer" where
  "sendTimeUpdate e key client w =
     (case ss_instances w key of
        None \<Rightarrow> w
      | Some this \<Rightarrow>
          (let c = ss_clients w ! client;
               (event, message) = timeUpdateMessage e (wc_timezoneService this) (cl_timezone c)
           in emit (cl_socket c) event message w))"

definition setInterval :: "string \<Rightarrow> nat \<Rightarrow> socketServer \<Rightarrow> nat \<times> socketServer" where
  "setInterval key client w =
     (length (ss_timers w),
      w\<lparr>ss_timers := ss_timers w @ [\<lparr>tm_instance = key, tm_client = client, tm_active = True\<rparr>]\<rparr>)"

definition clearInterval :: "nat \<Rightarrow> socketServer \<Rightarrow> socketServer" where
  "clearInterval tid w =
     (if tid < length (ss_timers w) then
        w\<lparr>ss_timers := (ss_timers w)[tid := (ss_timers w ! tid)\<lparr>tm_active := False\<rparr>]\<rparr>
      else w)"

definition updateInstance ::
  "string \<Rightarrow> (wsController \<Rightarrow> wsController) \<Rightarrow> socketServer \<Rightarrow> socketServer" where
  "updateInstance key f w =
     (case ss_instances w key of
        None \<Rightarrow> w
      | Some this \<Rightarrow> w\<lparr>ss_instances := (ss_instances w)(key \<mapsto> f this)\<rparr>)"

definition onConnect :: "engine \<Rightarrow> string \<Rightarrow> nat \<Rightarrow> socketServer \<Rightarrow> socketServer" where
  "onConnect e key client w =
     (let w1 = updateInstance key
                 (\<lambda>this. this\<lparr>wc_clients :=
                                 (if client \<in> set (wc_clients this) then wc_clients this
                                  else wc_clients this @ [client])\<rparr>) w;
          w2 = sendTimeUpdate e key client w1;
          (tid, w3) = setInterval key client w2;
          w4 = w3\<lparr>ss_clients :=
                    (ss_clients w3)[client := (ss_clients w3 ! client)\<lparr>cl_intervalId := Some tid\<rparr>]\<rparr>;
          sock = cl_socket (ss_clients w4 ! client)
      in w4\<lparr>ss_listeners :=
               ss_listeners w4 @ [(sock, OnDisconnect, key, client),
                                  (sock, OnGetTime, key, client),
                                  (sock, OnChangeTimezone, key, client)]\<rparr>)"

definition onDisconnect :: "string \<Rightarrow> nat \<Rightarrow> socketServer \<Rightarrow> socketServer" where
  "onDisconnect key client w =
     (let w1 = (case cl_intervalId (ss_clients w ! client) of
                  Some tid \<Rightarrow> clearInterval tid w
                | None \<Rightarrow> w)
      in updateInstance key (\<lambda>this. this\<lparr>wc_clients := removeAll client (wc_clients this)\<rparr>) w1)"

text \<open>The listener of \<^verbatim>\<open>change-timezone\<close>:
  \<^verbatim>\<open>client.timezone = data.timezone; this.sendTimeUpdate(client)\<close>.\<close>

definition changeTimezone ::
  "engine \<Rightarrow> string \<Rightarrow> nat \<Rightarrow> string \<Rightarrow> socketServer \<Rightarrow> socketServer" where
  "changeTimezone e key client tz w =
     sendTimeUpdate e key client
       (w\<lparr>ss_clients := (ss_clients w)[client := (ss_clients w ! client)\<lparr>cl_timezone := tz\<rparr>]\<rparr>)"

subsection \<open>SocketServer\<close>

definition resolveWebSocketParameters ::
  "appClass constructors \<Rightarrow> appClass WebSocketMetadata \<Rightarrow> params \<Rightarrow> appClass ServiceRegistry
     \<Rightarrow> (thrown + jsvalue list) \<times> appClass ServiceRegistry" where
  "resolveWebSocketParameters ctorThrows metadata urlParams sr =
     (let sortedParams = sort_key p_index (ws_parameters metadata)
      in case fillParameters ctorThrows urlParams sortedParams [] sr of
           (Inl e, sr') \<Rightarrow> (Inl e, sr')
         | (Inr arr, sr') \<Rightarrow> (Inr (toArguments arr), sr'))"

text \<open>\<^verbatim>\<open>args[i]\<close> of a call: \<^verbatim>\<open>undefined\<close> beyond the arguments given.\<close>

definition argument :: "jsvalue list \<Rightarrow> nat \<Rightarrow> jsvalue" where
  "argument args i = (if i < length args then args ! i else JUndefined)"

definition getWebSocketInstance ::
  "appClass constructors \<Rightarrow> appClass \<Rightarrow> appClass WebSocketMetadata \<Rightarrow> params \<Rightarrow> socketServer
     \<Rightarrow> (thrown + string) \<times> socketServer" where
  "getWebSocketInstance ctorThrows controllerClass metadata urlParams w =
     (let instanceKey = className controllerClass @ ''-'' @
            (case urlParams ''timezone'' of None \<Rightarrow> ''undefined'' | Some tz \<Rightarrow> tz)
      in case ss_instances w instanceKey of
           Some cached \<Rightarrow> (Inr instanceKey, w)
         | None \<Rightarrow>
             (case resolveWebSocketParameters ctorThrows metadata urlParams (ss_services w) of
                (Inl e, sr') \<Rightarrow> (Inl e, w\<lparr>ss_services := sr'\<rparr>)
              | (Inr constructorParams, sr') \<Rightarrow>
                  (case ctorThrows controllerClass of
                     Some e \<Rightarrow> (Inl e, w\<lparr>ss_services := sr'\<rparr>)
                   | None \<Rightarrow>
                       (Inr instanceKey,
                        w\<lparr>ss_services := sr',
                           ss_instances := (ss_instances w)(instanceKey \<mapsto>
                             \<lparr>wc_class = controllerClass,
                              wc_timezone = argument constructorParams 0,
                              wc_timezoneService = argument constructorParams 1,
                              wc_clients = []\<rparr>)\<rparr>))))"

text \<open>Of the classes of the application, \<^verbatim>\<open>TimezoneWebSocket\<close> has an \<^verbatim>\<open>onConnect\<close>.\<close>

definition hasOnConnect :: "appClass \<Rightarrow> bool" where
  "hasOnConnect c = (c = TimezoneWebSocket)"

text \<open>The loop of \<^verbatim>\<open>handleTimezoneSubscription\<close> over the registered WebSocket routes.\<close>

fun subscriptionLoop ::
  "engine \<Rightarrow> appClass constructors \<Rightarrow> nat \<Rightarrow> string
     \<Rightarrow> (appClass \<times> appClass WebSocketMetadata) list \<Rightarrow> socketServer \<Rightarrow> socketServer" where
  "subscriptionLoop e ctorThrows sock tz [] w =
     emit sock ''error'' (ServerError ''Route not found'') w"
| "subscriptionLoop e ctorThrows sock tz ((controllerClass, metadata) # rest) w =
     (case matchTimezoneRoute tz (ws_path metadata) of
        None \<Rightarrow> subscriptionLoop e ctorThrows sock tz rest w
      | Some urlParams \<Rightarrow>
          (case getWebSocketInstance ctorThrows controllerClass metadata urlParams w of
             (Inl err, w') \<Rightarrow> emit sock ''error'' (ServerError ''Internal server error'') w'
           | (Inr key, w') \<Rightarrow>
               (let client = length (ss_clients w');
                    w'' = w'\<lparr>ss_clients := ss_clients w' @
                               [\<lparr>cl_socket = sock, cl_timezone = tz, cl_intervalId = None\<rparr>]\<rparr>
                in if hasOnConnect controllerClass then onConnect e key client w''
                   else emit sock ''error'' (ServerError ''Controller method not found'') w'')))"

definition handleTimezoneSubscription ::
  "engine \<Rightarrow> appClass constructors \<Rightarrow> nat \<Rightarrow> string \<Rightarrow> socketServer \<Rightarrow> socketServer" where
  "handleTimezoneSubscription e ctorThrows sock tz w =
     (let roomName = ''timezone-'' @ tz;
          w1 = w\<lparr>ss_rooms := ss_rooms w @ [(sock, roomName)]\<rparr>
      in subscriptionLoop e ctorThrows sock tz (getAllWebSockets (ss_registry w1)) w1)"

text \<open>An event of a socket runs the listeners installed for it, in the order of their
  installation.\<close>

definition listenersOf :: "socketServer \<Rightarrow> nat \<Rightarrow> listenerKind \<Rightarrow> (string \<times> nat) list" where
  "listenersOf w sock kind =
     map (\<lambda>(s, k, key, client). (key, client))
       (filter (\<lambda>(s, k, key, client). s = sock \<and> k = kind) (ss_listeners w))"

datatype socketEvent =
    SubscribeTimezone nat string
  | Disconnect nat
  | GetTime nat
  | ChangeTimezone nat string
  | TimerFires nat

fun socketStep :: "engine \<Rightarrow> appClass constructors \<Rightarrow> socketEvent \<Rightarrow> socketServer \<Rightarrow> socketServer" where
  "socketStep e ctorThrows (SubscribeTimezone sock tz) w =
     handleTimezoneSubscription e ctorThrows sock tz w"
| "socketStep e ctorThrows (Disconnect sock) w =
     (let w1 = fold (\<lambda>(key, client). onDisconnect key client) (listenersOf w sock OnDisconnect) w
      in w1\<lparr>ss_rooms := filter (\<lambda>(s, room). s \<noteq> sock) (ss_rooms w1)\<rparr>)"
| "socketStep e ctorThrows (GetTime sock) w =
     fold (\<lambda>(key, client). sendTimeUpdate e key client) (listenersOf w sock OnGetTime) w"
| "socketStep e ctorThrows (ChangeTimezone sock tz) w =
     fold (\<lambda>(key, client). changeTimezone e key client tz) (listenersOf w sock OnChangeTimezone) w"
| "socketStep e ctorThrows (TimerFires tid) w =
     (if tid < length (ss_timers w) \<and> tm_active (ss_timers w ! tid) then
        sendTimeUpdate e (tm_instance (ss_timers w ! tid)) (tm_client (ss_timers w ! tid)) w
      else w)"

definition socketRun ::
  "engine \<Rightarrow> appClass constructors \<Rightarrow> socketEvent list \<Rightarrow> socketServer \<Rightarrow> socketServer" where
  "socketRun e ctorThrows events w = fold (socketStep e ctorThrows) events w"

text \<open>The server when it starts.\<close>

definition initialServer :: "appClass RoutingRegistry \<Rightarrow> socketServer" where
  "initialServer reg =
     \<lparr>ss_registry = reg, ss_services = emptyServices, ss_rooms = [],
      ss_instances = Map.empty, ss_clients = [], ss_timers = [], ss_listeners = [],
      ss_emitted = []\<rparr>"

text \<open>The active timers whose record belongs to a socket.\<close>

definition activeTimersOf :: "socketServer \<Rightarrow> nat \<Rightarrow> timer list" where
  "activeTimersOf w sock =
     filter (\<lambda>t. tm_active t \<and> tm_client t < length (ss_clients w)
                 \<and> cl_socket (ss_clients w ! tm_client t) = sock)
       (ss_timers w)"

text \<open>Every timer belongs to a record of the store.\<close>

definition timersBound :: "socketServer \<Rightarrow> bool" where
  "timersBound w = list_all (\<lambda>t. tm_client t < length (ss_clients w)) (ss_timers w)"

text \<open>
  A sample run: the constructor types of \<^verbatim>\<open>TimezoneWebSocket\<close> as the compiler emits them,
  the server when it starts, and the server after socket 0 has subscribed to \<open>Etc/UTC\<close>.
\<close>

definition appCtorReflection :: "appClass ctorReflection" where
  "appCtorReflection c =
     (if c = TimezoneWebSocket then [StringType, ServiceClass TimezoneService] else [])"

definition startedServer :: socketServer where
  "startedServer = initialServer (appRegistry (\<lambda>c h. []) appCtorReflection)"

definition subscribedServer :: socketServer where
  "subscribedServer =
     handleTimezoneSubscription utcEngine appConstructors 0 ''Etc/UTC'' startedServer"

text \<open>The server after socket 0 has subscribed a second time, to \<open>Europe/Paris\<close>.\<close>

definition resubscribedServer :: socketServer where
  "resubscribedServer =
     handleTimezoneSubscription utcEngine appConstructors 0 ''Europe/Paris'' subscribedServer"

text \<open>Every listener belongs to a record of its socket and to a controller instance that
  exists.\<close>

definition listenersBound :: "socketServer \<Rightarrow> bool" where
  "listenersBound w =
     list_all (\<lambda>(s, k, key, client).
                 client < length (ss_clients w)
                 \<and> cl_socket (ss_clients w ! client) = s
                 \<and> ss_instances w key \<noteq> None)
       (ss_listeners w)"

text \<open>The records at the given positions of the store with their timezone set, the others
  as they are.\<close>

definition retarget :: "nat list \<Rightarrow> string \<Rightarrow> SocketIOClient list \<Rightarrow> SocketIOClient list" where
  "retarget targets tz clients =
     map (\<lambda>(i, c). if i \<in> set targets then c\<lparr>cl_timezone := tz\<rparr> else c) (enumerate 0 clients)"

section \<open>Properties of route matching\<close>






text \<open>A colon segment before the last one is compared as text by the wildcard branch, which
  returns before the standard loop could bind it.\<close>

lemma matchRoute_middle_parameter:
  "matchRoute ''/a/x/y'' ''/a/:b/:c'' = Inr None"
  by (simp add: matchRoute_def segments_def startsWith_def literalPartsMatch_def setProperty_def)

text \<open>A final parameter named \<^verbatim>\<open>__proto__\<close> matches and captures nothing: the assignment to
  that name of a plain object is swallowed.\<close>

lemma matchRoute_proto_parameter:
  "matchRoute ''/a/x'' ''/a/:__proto__'' = Inr (Some Map.empty)"
  by (simp add: matchRoute_def segments_def startsWith_def literalPartsMatch_def setProperty_def)

section \<open>Properties of topic route matching\<close>

lemma findIndex_ge: "findIndex p xs \<ge> -1"
  by (induction xs) (auto simp: Let_def)

lemma findIndex_absent: "(findIndex p xs = -1) = (\<forall>x \<in> set xs. \<not> p x)"
proof (induction xs)
  case Nil
  show ?case by simp
next
  case (Cons x xs)
  have "findIndex p xs \<ge> -1" by (rule findIndex_ge)
  with Cons show ?case by (auto simp: Let_def)
qed

text \<open>
  Claim C9, as the code has it. A topic route matches exactly when one of its segments is
  the text \<open>:timezone\<close>; the match then binds \<open>timezone\<close> to the topic value, whatever the
  topic value is. A route without that segment never matches, also when it has a
  parameter segment of another name.
\<close>

theorem matchTimezoneRoute_exact_name:
  "matchTimezoneRoute tz routePath =
     (if '':timezone'' \<in> set (segments routePath) then Some [''timezone'' \<mapsto> tz] else None)"
  by (auto simp: matchTimezoneRoute_def Let_def findIndex_absent)

theorem matchTimezoneRoute_exact_name_witness:
  "matchTimezoneRoute ''Not/A/Zone'' ''/time/live/:timezone''
     = Some [''timezone'' \<mapsto> ''Not/A/Zone'']
   \<and> matchTimezoneRoute ''UTC'' ''/time/live'' = None"
  using matchTimezoneRoute_exact_name[of "''Not/A/Zone''" "''/time/live/:timezone''"]
    matchTimezoneRoute_exact_name[of "''UTC''" "''/time/live''"]
  by (simp add: segments_def)

text \<open>
  Claim C9 as stated fails: the route \<open>/time/live/:zone\<close> has a parameter segment, and the
  topic \<open>UTC\<close> does not match it.
\<close>

theorem matchTimezoneRoute_other_name_counterexample:
  "segments ''/time/live/:zone'' = [''time'', ''live'', '':zone'']
   \<and> startsWith '':zone'' '':''
   \<and> matchTimezoneRoute ''UTC'' ''/time/live/:zone'' = None"
  by (simp add: matchTimezoneRoute_def segments_def startsWith_def)

section \<open>Properties of the routing registry\<close>

lemma find_None_conv: "(find p xs = None) = (\<forall>x \<in> set xs. \<not> p x)"
  by (induction xs) auto

lemma find_update_first:
  "(\<And>x. p (f x) = p x) \<Longrightarrow> find p (update_first p f xs) = map_option f (find p xs)"
  by (induction xs) auto

lemma update_first_twice:
  "(\<And>x. p x \<Longrightarrow> p (g x)) \<Longrightarrow>
   update_first p f (update_first p g xs) = update_first p (\<lambda>x. f (g x)) xs"
  by (induction xs) auto

lemma update_first_absent: "find p xs = None \<Longrightarrow> update_first p f xs = xs"
  by (induction xs) (auto split: if_splits)

lemma update_first_append_new:
  "find p xs = None \<Longrightarrow> p y \<Longrightarrow> update_first p f (xs @ [y]) = xs @ [f y]"
  by (induction xs) (auto split: if_splits)

lemma update_first_append_old:
  "find p xs = Some x \<Longrightarrow> update_first p f (xs @ ys) = update_first p f xs @ ys"
  by (induction xs) (auto split: if_splits)

lemma find_append_new: "find p xs = None \<Longrightarrow> p y \<Longrightarrow> find p (xs @ [y]) = Some y"
  by (induction xs) (auto split: if_splits)

lemma autoDetectLoop_nothing:
  "list_all (\<lambda>t. \<not> isServiceType t) ts \<Longrightarrow> autoDetectLoop i ts ps = ps"
  by (induction ts arbitrary: i ps) (auto simp: isServiceType_def split: declaredType.splits)

lemma routes_setRoutes [simp]: "routes (metadataOf (setRoutes reg target rs) target) = rs"
  by (simp add: setRoutes_def metadataOf_def)

lemma setRoutes_setRoutes [simp]:
  "setRoutes (setRoutes reg target rs) target rs' = setRoutes reg target rs'"
  by (simp add: setRoutes_def metadataOf_def)

lemma registerRoute_registerParam_commute:
  assumes "list_all (\<lambda>t. \<not> isServiceType t) (reflect target handler)"
  shows "registerRoute reflect target method path handler
           (registerParam target handler paramName paramIndex reg)
       = registerParam target handler paramName paramIndex
           (registerRoute reflect target method path handler reg)"
proof (cases "find (\<lambda>r. r_handler r = handler) (routes (metadataOf reg target))")
  case None
  then show ?thesis
    using assms
    by (simp add: registerRoute_def registerParam_def findOrCreateRoute_def Let_def
        autoDetectServiceParameters_def autoDetectLoop_nothing
        update_first_append_new find_append_new)
next
  case (Some r)
  have swap: "\<And>x :: 'a RouteMetadata.
      x\<lparr>r_paramNames := array_set (r_paramNames x) paramIndex paramName,
        r_parameters := upsertParam paramIndex paramName (r_parameters x),
        r_method := method, r_path := path\<rparr>
    = x\<lparr>r_method := method, r_path := path,
        r_paramNames := array_set (r_paramNames x) paramIndex paramName,
        r_parameters := upsertParam paramIndex paramName (r_parameters x)\<rparr>"
    by simp
  from Some show ?thesis
    by (simp add: registerRoute_def registerParam_def findOrCreateRoute_def Let_def
        find_update_first update_first_twice swap)
qed


lemma registerRoute_registerParams_commute:
  assumes "list_all (\<lambda>t. \<not> isServiceType t) (reflect target handler)"
  shows "registerRoute reflect target method path handler (registerParams target handler ps reg)
       = registerParams target handler ps (registerRoute reflect target method path handler reg)"
proof (induction ps arbitrary: reg)
  case Nil
  show ?case by (simp add: registerParams_def)
next
  case (Cons a ps)
  obtain paramName paramIndex where a: "a = (paramName, paramIndex)" by (cases a)
  have step: "registerParams target handler (a # ps) r
      = registerParams target handler ps (registerParam target handler paramName paramIndex r)" for r
    by (simp add: registerParams_def a)
  show ?case
    using assms by (simp add: step Cons.IH registerRoute_registerParam_commute)
qed

lemma registerParams_append:
  "registerParams target handler (ps @ qs) reg
     = registerParams target handler qs (registerParams target handler ps reg)"
  by (simp add: registerParams_def)

lemma routeOf_setRoutes [simp]:
  "routeOf (setRoutes reg target rs) target handler = find (\<lambda>r. r_handler r = handler) rs"
  by (simp add: routeOf_def)

lemma routesFor_setRoutes [simp]:
  "routesFor (setRoutes reg target rs) target handler = filter (\<lambda>r. r_handler r = handler) rs"
  by (simp add: routesFor_def)

lemma find_findOrCreateRoute:
  "find (\<lambda>r. r_handler r = handler) (findOrCreateRoute handler rs)
     = Some (case find (\<lambda>r. r_handler r = handler) rs of
               Some r \<Rightarrow> r
             | None \<Rightarrow> \<lparr>r_method = [], r_path = [], r_handler = handler,
                          r_paramNames = [], r_parameters = []\<rparr>)"
  by (cases "find (\<lambda>r. r_handler r = handler) rs")
     (simp_all add: findOrCreateRoute_def find_append_new)

lemma routeOf_registerParam:
  "routeOf (registerParam target handler paramName paramIndex reg) target handler
     = Some ((case routeOf reg target handler of
                Some r \<Rightarrow> r
              | None \<Rightarrow> \<lparr>r_method = [], r_path = [], r_handler = handler,
                           r_paramNames = [], r_parameters = []\<rparr>)
             \<lparr>r_paramNames := array_set
                (r_paramNames (case routeOf reg target handler of
                   Some r \<Rightarrow> r
                 | None \<Rightarrow> \<lparr>r_method = [], r_path = [], r_handler = handler,
                              r_paramNames = [], r_parameters = []\<rparr>)) paramIndex paramName,
              r_parameters := upsertParam paramIndex paramName
                (r_parameters (case routeOf reg target handler of
                   Some r \<Rightarrow> r
                 | None \<Rightarrow> \<lparr>r_method = [], r_path = [], r_handler = handler,
                              r_paramNames = [], r_parameters = []\<rparr>))\<rparr>)"
  by (simp add: registerParam_def find_update_first find_findOrCreateRoute routeOf_def)

lemma routeOf_registerServiceParameter:
  "routeOf (registerServiceParameter target handler paramIndex serviceType reg) target handler
     = Some ((case routeOf reg target handler of
                Some r \<Rightarrow> r
              | None \<Rightarrow> \<lparr>r_method = [], r_path = [], r_handler = handler,
                           r_paramNames = [], r_parameters = []\<rparr>)
             \<lparr>r_parameters := upsertService paramIndex serviceType
                (r_parameters (case routeOf reg target handler of
                   Some r \<Rightarrow> r
                 | None \<Rightarrow> \<lparr>r_method = [], r_path = [], r_handler = handler,
                              r_paramNames = [], r_parameters = []\<rparr>))\<rparr>)"
  by (simp add: registerServiceParameter_def find_update_first find_findOrCreateRoute routeOf_def)

lemma parametersOf_registerParam:
  "parametersOf (registerParam target handler paramName paramIndex reg) target handler
     = upsertParam paramIndex paramName (parametersOf reg target handler)"
  by (simp add: parametersOf_def routeOf_registerParam split: option.splits)

lemma parametersOf_registerServiceParameter:
  "parametersOf (registerServiceParameter target handler paramIndex serviceType reg) target handler
     = upsertService paramIndex serviceType (parametersOf reg target handler)"
  by (simp add: parametersOf_def routeOf_registerServiceParameter split: option.splits)

lemma routeOf_registerRoute_existing:
  "routeOf reg target handler = Some r \<Longrightarrow>
   routeOf (registerRoute reflect target method path handler reg) target handler
     = Some (r\<lparr>r_method := method, r_path := path\<rparr>)"
  by (simp add: registerRoute_def routeOf_def Let_def find_update_first)

lemma length_filter_update_first:
  "(\<And>x. p (f x) = p x) \<Longrightarrow> length (filter p (update_first p f xs)) = length (filter p xs)"
  by (induction xs) auto

lemma filter_findOrCreateRoute:
  "length (filter (\<lambda>r. r_handler r = handler) rs) \<le> 1 \<Longrightarrow>
   length (filter (\<lambda>r. r_handler r = handler) (findOrCreateRoute handler rs)) = 1"
proof (cases "find (\<lambda>r. r_handler r = handler) rs")
  case None
  then have "filter (\<lambda>r. r_handler r = handler) rs = []"
    by (simp add: find_None_conv filter_empty_conv)
  with None show ?thesis by (simp add: findOrCreateRoute_def)
next
  case (Some r)
  then have "filter (\<lambda>r. r_handler r = handler) rs \<noteq> []"
    by (metis find_None_conv filter_empty_conv option.distinct(1))
  moreover assume "length (filter (\<lambda>r. r_handler r = handler) rs) \<le> 1"
  ultimately have "length (filter (\<lambda>r. r_handler r = handler) rs) = 1"
    by (cases "filter (\<lambda>r. r_handler r = handler) rs") auto
  with Some show ?thesis by (simp add: findOrCreateRoute_def)
qed

lemma routesFor_registerParam:
  "length (routesFor reg target handler) \<le> 1 \<Longrightarrow>
   length (routesFor (registerParam target handler paramName paramIndex reg) target handler) = 1"
  by (simp add: registerParam_def length_filter_update_first filter_findOrCreateRoute
      routesFor_def[of reg])

lemma routesFor_registerRoute_existing:
  "routeOf reg target handler = Some r \<Longrightarrow>
   length (routesFor (registerRoute reflect target method path handler reg) target handler)
     = length (routesFor reg target handler)"
  by (simp add: registerRoute_def routeOf_def Let_def length_filter_update_first routesFor_def[of reg])

subsection \<open>One route per handler\<close>

text \<open>Every registry that a run of registrations builds holds at most one route per
  controller and handler name; and with reflection metadata that names a service class,
  the parameter specs do depend on the order of the two registrations.\<close>

lemma map_handler_update_first:
  "(\<And>x. r_handler (f x) = r_handler x) \<Longrightarrow>
   map r_handler (update_first P f rs) = map r_handler rs"
  by (induction rs) auto

lemma find_handler_None:
  "(find (\<lambda>r. r_handler r = h) rs = None) = (h \<notin> r_handler ` set rs)"
  by (induction rs) auto

lemma distinct_findOrCreateRoute:
  "distinct (map r_handler rs) \<Longrightarrow> distinct (map r_handler (findOrCreateRoute h rs))"
proof (cases "find (\<lambda>r. r_handler r = h) rs")
  case None
  moreover assume "distinct (map r_handler rs)"
  moreover from None have "h \<notin> r_handler ` set rs" by (simp add: find_handler_None)
  ultimately show ?thesis by (simp add: findOrCreateRoute_def)
next
  case (Some r)
  moreover assume "distinct (map r_handler rs)"
  ultimately show ?thesis by (simp add: findOrCreateRoute_def)
qed

lemma handlersUnique_routes:
  "handlersUnique reg \<Longrightarrow> distinct (map r_handler (routes (metadataOf reg target)))"
  by (auto simp: handlersUnique_def metadataOf_def split: option.splits)

lemma handlersUnique_setRoutes:
  "handlersUnique reg \<Longrightarrow> distinct (map r_handler rs) \<Longrightarrow>
   handlersUnique (setRoutes reg target rs)"
  by (auto simp: handlersUnique_def setRoutes_def)

lemma handlersUnique_registerParam:
  "handlersUnique reg \<Longrightarrow> handlersUnique (registerParam target handler paramName paramIndex reg)"
  by (simp add: registerParam_def handlersUnique_setRoutes map_handler_update_first
      distinct_findOrCreateRoute handlersUnique_routes)

lemma handlersUnique_registerServiceParameter:
  "handlersUnique reg \<Longrightarrow>
   handlersUnique (registerServiceParameter target handler paramIndex serviceType reg)"
  by (simp add: registerServiceParameter_def handlersUnique_setRoutes map_handler_update_first
      distinct_findOrCreateRoute handlersUnique_routes)

lemma handlersUnique_registerRoute:
  assumes "handlersUnique reg"
  shows "handlersUnique (registerRoute reflect target method path handler reg)"
proof (cases "find (\<lambda>route. r_handler route = handler) (routes (metadataOf reg target))")
  case None
  then have "handler \<notin> r_handler ` set (routes (metadataOf reg target))"
    by (simp add: find_handler_None)
  with None show ?thesis
    using handlersUnique_routes[OF assms, of target]
    by (simp add: registerRoute_def Let_def handlersUnique_setRoutes[OF assms]
        autoDetectServiceParameters_def)
next
  case (Some a)
  then show ?thesis
    using handlersUnique_routes[OF assms, of target]
    by (simp add: registerRoute_def Let_def handlersUnique_setRoutes[OF assms]
        map_handler_update_first)
qed

lemma handlersUnique_registerAll:
  "handlersUnique reg \<Longrightarrow> handlersUnique (registerAll reflect ops reg)"
  unfolding registerAll_def
proof (induction ops arbitrary: reg)
  case Nil
  then show ?case by simp
next
  case (Cons op ops)
  have "handlersUnique (register reflect op reg)"
    using Cons.prems
    by (cases op)
       (simp_all add: handlersUnique_registerRoute handlersUnique_registerParam
          handlersUnique_registerServiceParameter)
  then show ?case using Cons.IH by simp
qed

lemma distinct_handler_filter:
  "distinct (map r_handler rs) \<Longrightarrow> length (filter (\<lambda>r. r_handler r = h) rs) \<le> 1"
proof (induction rs)
  case Nil
  show ?case by simp
next
  case (Cons r rs)
  show ?case
  proof (cases "r_handler r = h")
    case True
    with Cons.prems have "h \<notin> r_handler ` set rs" by auto
    then have "filter (\<lambda>r. r_handler r = h) rs = []"
      by (auto simp: filter_empty_conv)
    with True show ?thesis by simp
  next
    case False
    with Cons show ?thesis by simp
  qed
qed

lemma routesFor_registerAll:
  "length (routesFor (registerAll reflect ops emptyRegistry) target handler) \<le> 1"
proof -
  have "handlersUnique (emptyRegistry :: 'a RoutingRegistry)"
    by (simp add: handlersUnique_def emptyRegistry_def)
  then have "handlersUnique (registerAll reflect ops (emptyRegistry :: 'a RoutingRegistry))"
    by (rule handlersUnique_registerAll)
  then show ?thesis
    unfolding routesFor_def by (intro distinct_handler_filter handlersUnique_routes)
qed

lemma autoDetect_depends_on_order:
  "parametersOf
     (registerRoute (\<lambda>c h. [StringType, ServiceClass 1]) (0::nat) ''GET'' ''/p/:x'' ''h''
        (registerParam 0 ''h'' ''x'' 0 emptyRegistry)) 0 ''h''
   = [\<lparr>p_index = 0, p_type = ParamKind, p_name = Some ''x'', p_serviceType = None\<rparr>]
   \<and> parametersOf
     (registerParam 0 ''h'' ''x'' 0
        (registerRoute (\<lambda>c h. [StringType, ServiceClass 1]) (0::nat) ''GET'' ''/p/:x'' ''h''
           emptyRegistry)) 0 ''h''
   = [\<lparr>p_index = 1, p_type = ServiceKind, p_name = None, p_serviceType = Some 1\<rparr>,
      \<lparr>p_index = 0, p_type = ParamKind, p_name = Some ''x'', p_serviceType = None\<rparr>]"
  by (simp add: parametersOf_def routeOf_def registerRoute_def registerParam_def setRoutes_def
      metadataOf_def emptyRegistry_def findOrCreateRoute_def upsertParam_def array_set_def
      autoDetectServiceParameters_def Let_def)

subsection \<open>The order of the decorators\<close>

text \<open>
  Claim C4. Let the reflection metadata of the handler name no service class, so that
  auto-detection adds nothing. Then \<^verbatim>\<open>registerRoute\<close> and \<^verbatim>\<open>registerParam\<close> for one controller
  and handler commute on every registry; the route registration may stand anywhere in a
  run of parameter registrations; after the parameter registration, the route
  registration changes the method and the path of the entry and nothing else; and a
  registry with at most one entry for the pair has exactly one afterwards.
\<close>

theorem registerRoute_registerParam_order:
  assumes "list_all (\<lambda>t. \<not> isServiceType t) (reflect target handler)"
  shows "registerRoute reflect target method path handler
           (registerParam target handler paramName paramIndex reg)
         = registerParam target handler paramName paramIndex
             (registerRoute reflect target method path handler reg)
       \<and> registerParams target handler qs
           (registerRoute reflect target method path handler
              (registerParams target handler ps reg))
         = registerRoute reflect target method path handler
             (registerParams target handler (ps @ qs) reg)
       \<and> (\<exists>r. routeOf (registerParam target handler paramName paramIndex reg) target handler
                 = Some r
              \<and> routeOf (registerRoute reflect target method path handler
                           (registerParam target handler paramName paramIndex reg))
                   target handler
                 = Some (r\<lparr>r_method := method, r_path := path\<rparr>))
       \<and> (length (routesFor reg target handler) \<le> 1 \<longrightarrow>
            length (routesFor (registerRoute reflect target method path handler
                                 (registerParam target handler paramName paramIndex reg))
                      target handler) = 1)"
proof (intro conjI impI)
  show "registerRoute reflect target method path handler
           (registerParam target handler paramName paramIndex reg)
         = registerParam target handler paramName paramIndex
             (registerRoute reflect target method path handler reg)"
    using assms by (rule registerRoute_registerParam_commute)
next
  show "registerParams target handler qs
           (registerRoute reflect target method path handler
              (registerParams target handler ps reg))
         = registerRoute reflect target method path handler
             (registerParams target handler (ps @ qs) reg)"
    using assms by (simp add: registerParams_append registerRoute_registerParams_commute)
next
  obtain r where r: "routeOf (registerParam target handler paramName paramIndex reg) target handler
      = Some r"
    by (simp add: routeOf_registerParam)
  then show "\<exists>r. routeOf (registerParam target handler paramName paramIndex reg) target handler
                 = Some r
              \<and> routeOf (registerRoute reflect target method path handler
                           (registerParam target handler paramName paramIndex reg))
                   target handler
                 = Some (r\<lparr>r_method := method, r_path := path\<rparr>)"
    using routeOf_registerRoute_existing[OF r] by blast
next
  assume le: "length (routesFor reg target handler) \<le> 1"
  obtain r where r: "routeOf (registerParam target handler paramName paramIndex reg) target handler
      = Some r"
    by (simp add: routeOf_registerParam)
  show "length (routesFor (registerRoute reflect target method path handler
                                 (registerParam target handler paramName paramIndex reg))
                      target handler) = 1"
    by (simp only: routesFor_registerRoute_existing[OF r] routesFor_registerParam[OF le])
qed

theorem registerRoute_registerParam_order_witness:
  "list_all (\<lambda>t. \<not> isServiceType t) ([] :: nat declaredType list)
   \<and> routeOf (registerRoute (\<lambda>c h. []) (0::nat) ''GET'' ''/time/:timezone'' ''getTime''
                (registerParam 0 ''getTime'' ''timezone'' 0 emptyRegistry)) 0 ''getTime''
     = Some \<lparr>r_method = ''GET'', r_path = ''/time/:timezone'', r_handler = ''getTime'',
             r_paramNames = [Some ''timezone''],
             r_parameters = [\<lparr>p_index = 0, p_type = ParamKind, p_name = Some ''timezone'',
                              p_serviceType = None\<rparr>]\<rparr>
   \<and> registerRoute (\<lambda>c h. []) (0::nat) ''GET'' ''/time/:timezone'' ''getTime''
        (registerParam 0 ''getTime'' ''timezone'' 0 emptyRegistry)
     = registerParam 0 ''getTime'' ''timezone'' 0
        (registerRoute (\<lambda>c h. []) 0 ''GET'' ''/time/:timezone'' ''getTime'' emptyRegistry)
   \<and> length (routesFor (registerRoute (\<lambda>c h. []) (0::nat) ''GET'' ''/time/:timezone'' ''getTime''
                (registerParam 0 ''getTime'' ''timezone'' 0 emptyRegistry)) 0 ''getTime'') = 1"
proof -
  have h: "list_all (\<lambda>t. \<not> isServiceType t) ([] :: nat declaredType list)"
    by simp
  have e: "length (routesFor (emptyRegistry :: nat RoutingRegistry) 0 ''getTime'') \<le> 1"
    by (simp add: routesFor_def metadataOf_def emptyRegistry_def)
  have r0: "routeOf (emptyRegistry :: nat RoutingRegistry) 0 ''getTime'' = None"
    by (simp add: routeOf_def metadataOf_def emptyRegistry_def)
  have r1: "routeOf (registerParam 0 ''getTime'' ''timezone'' 0 (emptyRegistry :: nat RoutingRegistry))
              0 ''getTime''
      = Some \<lparr>r_method = [], r_path = [], r_handler = ''getTime'',
              r_paramNames = [Some ''timezone''],
              r_parameters = [\<lparr>p_index = 0, p_type = ParamKind, p_name = Some ''timezone'',
                               p_serviceType = None\<rparr>]\<rparr>"
    unfolding routeOf_registerParam r0 by (simp add: array_set_def upsertParam_def)
  have r2: "routeOf (registerRoute (\<lambda>c h. []) (0::nat) ''GET'' ''/time/:timezone'' ''getTime''
                (registerParam 0 ''getTime'' ''timezone'' 0 emptyRegistry)) 0 ''getTime''
     = Some \<lparr>r_method = ''GET'', r_path = ''/time/:timezone'', r_handler = ''getTime'',
             r_paramNames = [Some ''timezone''],
             r_parameters = [\<lparr>p_index = 0, p_type = ParamKind, p_name = Some ''timezone'',
                              p_serviceType = None\<rparr>]\<rparr>"
    using routeOf_registerRoute_existing[OF r1] by simp
  note order = registerRoute_registerParam_order[of "\<lambda>c h. []" "0::nat" "''getTime''" "''GET''"
        "''/time/:timezone''" "''timezone''" 0 emptyRegistry "[]" "[]"]
  from order h e have
    "registerRoute (\<lambda>c h. []) (0::nat) ''GET'' ''/time/:timezone'' ''getTime''
        (registerParam 0 ''getTime'' ''timezone'' 0 emptyRegistry)
     = registerParam 0 ''getTime'' ''timezone'' 0
        (registerRoute (\<lambda>c h. []) 0 ''GET'' ''/time/:timezone'' ''getTime'' emptyRegistry)"
    and "length (routesFor (registerRoute (\<lambda>c h. []) (0::nat) ''GET'' ''/time/:timezone'' ''getTime''
                (registerParam 0 ''getTime'' ''timezone'' 0 emptyRegistry)) 0 ''getTime'') = 1"
    by blast+
  with h r2 show ?thesis by blast
qed

subsection \<open>One spec per positional index\<close>

lemma map_index_update_first:
  "(\<And>x. p_index (f x) = p_index x) \<Longrightarrow>
   map p_index (update_first P f ps) = map p_index ps"
  by (induction ps) auto

lemma find_index_None: "(find (\<lambda>p. p_index p = i) ps = None) = (i \<notin> p_index ` set ps)"
  by (induction ps) auto

lemma map_index_upsertParam:
  "map p_index (upsertParam i n ps)
     = (if i \<in> p_index ` set ps then map p_index ps else map p_index ps @ [i])"
proof (cases "find (\<lambda>p. p_index p = i) ps")
  case None
  moreover from None have "i \<notin> p_index ` set ps" by (simp add: find_index_None)
  ultimately show ?thesis by (simp add: upsertParam_def)
next
  case (Some a)
  moreover from Some have "i \<in> p_index ` set ps"
    using find_index_None[of i ps] by simp
  ultimately show ?thesis by (simp add: upsertParam_def map_index_update_first)
qed

lemma map_index_upsertService:
  "map p_index (upsertService i s ps)
     = (if i \<in> p_index ` set ps then map p_index ps else map p_index ps @ [i])"
proof (cases "find (\<lambda>p. p_index p = i) ps")
  case None
  moreover from None have "i \<notin> p_index ` set ps" by (simp add: find_index_None)
  ultimately show ?thesis by (simp add: upsertService_def)
next
  case (Some a)
  moreover from Some have "i \<in> p_index ` set ps"
    using find_index_None[of i ps] by simp
  ultimately show ?thesis by (simp add: upsertService_def map_index_update_first)
qed

lemma distinct_upsertParam:
  "distinct (map p_index ps) \<Longrightarrow> distinct (map p_index (upsertParam i n ps))"
  by (simp add: map_index_upsertParam)

lemma distinct_upsertService:
  "distinct (map p_index ps) \<Longrightarrow> distinct (map p_index (upsertService i s ps))"
  by (simp add: map_index_upsertService)

lemma distinct_autoDetectLoop:
  "distinct (map p_index ps) \<Longrightarrow> distinct (map p_index (autoDetectLoop i ts ps))"
proof (induction ts arbitrary: i ps)
  case Nil
  then show ?case by simp
next
  case (Cons t ts)
  show ?case
  proof (cases t)
    case (ServiceClass c)
    show ?thesis
    proof (cases "find (\<lambda>p. p_index p = i) ps")
      case None
      then have "i \<notin> p_index ` set ps" by (simp add: find_index_None)
      with Cons.prems have "distinct (map p_index (ps @ [\<lparr>p_index = i, p_type = ServiceKind,
          p_name = None, p_serviceType = Some c\<rparr>]))"
        by simp
      from Cons.IH[OF this] ServiceClass None show ?thesis by simp
    next
      case (Some a)
      with Cons ServiceClass show ?thesis by simp
    qed
  qed (use Cons in simp_all)
qed

lemma all_update_first:
  "\<forall>x \<in> set xs. Q x \<Longrightarrow> (\<And>x. Q x \<Longrightarrow> Q (f x)) \<Longrightarrow> \<forall>x \<in> set (update_first P f xs). Q x"
  by (induction xs) auto

lemma paramsUnique_routes:
  "paramsUnique reg \<Longrightarrow>
   \<forall>r \<in> set (routes (metadataOf reg target)). distinct (map p_index (r_parameters r))"
  by (auto simp: paramsUnique_def metadataOf_def split: option.splits)

lemma paramsUnique_setRoutes:
  "paramsUnique reg \<Longrightarrow> \<forall>r \<in> set rs. distinct (map p_index (r_parameters r)) \<Longrightarrow>
   paramsUnique (setRoutes reg target rs)"
  by (auto simp: paramsUnique_def setRoutes_def)

lemma all_findOrCreateRoute:
  "\<forall>r \<in> set rs. distinct (map p_index (r_parameters r)) \<Longrightarrow>
   \<forall>r \<in> set (findOrCreateRoute handler rs). distinct (map p_index (r_parameters r))"
  by (auto simp: findOrCreateRoute_def split: option.splits)

lemma paramsUnique_registerParam:
  assumes "paramsUnique reg"
  shows "paramsUnique (registerParam target handler paramName paramIndex reg)"
  unfolding registerParam_def
  by (intro paramsUnique_setRoutes[OF assms] all_update_first all_findOrCreateRoute
      paramsUnique_routes[OF assms]) (simp add: distinct_upsertParam)

lemma paramsUnique_registerServiceParameter:
  assumes "paramsUnique reg"
  shows "paramsUnique (registerServiceParameter target handler paramIndex serviceType reg)"
  unfolding registerServiceParameter_def
  by (intro paramsUnique_setRoutes[OF assms] all_update_first all_findOrCreateRoute
      paramsUnique_routes[OF assms]) (simp add: distinct_upsertService)

lemma paramsUnique_registerRoute:
  assumes "paramsUnique reg"
  shows "paramsUnique (registerRoute reflect target method path handler reg)"
proof (cases "find (\<lambda>route. r_handler route = handler) (routes (metadataOf reg target))")
  case None
  have "\<forall>r \<in> set (routes (metadataOf reg target) @
          [autoDetectServiceParameters reflect target handler
             \<lparr>r_method = method, r_path = path, r_handler = handler,
              r_paramNames = [], r_parameters = []\<rparr>]). distinct (map p_index (r_parameters r))"
    using paramsUnique_routes[OF assms, of target]
    by (auto simp: autoDetectServiceParameters_def distinct_autoDetectLoop)
  with None show ?thesis
    by (simp add: registerRoute_def Let_def paramsUnique_setRoutes[OF assms])
next
  case (Some a)
  have "\<forall>r \<in> set (update_first (\<lambda>route. r_handler route = handler)
                  (\<lambda>route. route\<lparr>r_method := method, r_path := path\<rparr>)
                  (routes (metadataOf reg target))). distinct (map p_index (r_parameters r))"
    by (intro all_update_first paramsUnique_routes[OF assms]) simp
  with Some show ?thesis
    by (simp add: registerRoute_def Let_def paramsUnique_setRoutes[OF assms])
qed

lemma paramsUnique_empty: "paramsUnique emptyRegistry"
  by (simp add: paramsUnique_def emptyRegistry_def)

lemma paramsUnique_register:
  "paramsUnique reg \<Longrightarrow> paramsUnique (register reflect op reg)"
  by (cases op)
     (simp_all add: paramsUnique_registerRoute paramsUnique_registerParam
        paramsUnique_registerServiceParameter)

lemma paramsUnique_registerAll:
  "paramsUnique reg \<Longrightarrow> paramsUnique (registerAll reflect ops reg)"
  unfolding registerAll_def
  by (induction ops arbitrary: reg) (simp_all add: paramsUnique_register)

lemma find_upsertParam:
  "find (\<lambda>p. p_index p = i) (upsertParam i n ps)
     = Some \<lparr>p_index = i, p_type = ParamKind, p_name = Some n,
             p_serviceType = (case find (\<lambda>p. p_index p = i) ps of
                                None \<Rightarrow> None | Some p \<Rightarrow> p_serviceType p)\<rparr>"
proof (cases "find (\<lambda>p. p_index p = i) ps")
  case None
  then show ?thesis
    by (simp add: upsertParam_def) (induction ps, auto split: if_splits)
next
  case (Some p)
  then have "p_index p = i" by (induction ps) (auto split: if_splits)
  moreover have "find (\<lambda>p. p_index p = i) (upsertParam i n ps)
      = Some (p\<lparr>p_type := ParamKind, p_name := Some n\<rparr>)"
    using Some by (simp add: upsertParam_def) (induction ps, auto split: if_splits)
  ultimately show ?thesis using Some by (cases p) simp
qed

lemma find_upsertService:
  "find (\<lambda>p. p_index p = i) (upsertService i s ps)
     = Some \<lparr>p_index = i, p_type = ServiceKind,
             p_name = (case find (\<lambda>p. p_index p = i) ps of
                         None \<Rightarrow> None | Some p \<Rightarrow> p_name p),
             p_serviceType = Some s\<rparr>"
proof (cases "find (\<lambda>p. p_index p = i) ps")
  case None
  then show ?thesis
    by (simp add: upsertService_def) (induction ps, auto split: if_splits)
next
  case (Some p)
  then have "p_index p = i" by (induction ps) (auto split: if_splits)
  moreover have "find (\<lambda>p. p_index p = i) (upsertService i s ps)
      = Some (p\<lparr>p_type := ServiceKind, p_serviceType := Some s\<rparr>)"
    using Some by (simp add: upsertService_def) (induction ps, auto split: if_splits)
  ultimately show ?thesis using Some by (cases p) simp
qed

lemma index_in_upsertParam: "i \<in> p_index ` set (upsertParam i n ps)"
  using arg_cong[OF map_index_upsertParam[of i n ps], of set] by (auto split: if_splits)

lemma index_in_upsertService: "i \<in> p_index ` set (upsertService i s ps)"
  using arg_cong[OF map_index_upsertService[of i s ps], of set] by (auto split: if_splits)

text \<open>
  Claim C5. The invariant that a route holds at most one spec per positional index is
  kept by \<^verbatim>\<open>registerParam\<close> and by \<^verbatim>\<open>registerServiceParameter\<close>, and it holds after every run
  of registrations on the empty registry. When both operations name the same index, the
  later call wins and works in place: the indices of the list stay as they are, and the
  spec of the index has the later call's kind and field while it keeps the field of the
  earlier call.
\<close>

theorem parameter_index_unique:
  "(paramsUnique reg \<longrightarrow>
      paramsUnique (registerParam target handler paramName paramIndex reg)
      \<and> paramsUnique (registerServiceParameter target handler paramIndex serviceType reg))
   \<and> paramsUnique (registerAll reflect ops emptyRegistry)
   \<and> map p_index (parametersOf
        (registerServiceParameter target handler paramIndex serviceType
           (registerParam target handler paramName paramIndex reg)) target handler)
     = map p_index (parametersOf (registerParam target handler paramName paramIndex reg)
                      target handler)
   \<and> find (\<lambda>p. p_index p = paramIndex)
        (parametersOf (registerServiceParameter target handler paramIndex serviceType
           (registerParam target handler paramName paramIndex reg)) target handler)
     = Some \<lparr>p_index = paramIndex, p_type = ServiceKind, p_name = Some paramName,
             p_serviceType = Some serviceType\<rparr>
   \<and> map p_index (parametersOf
        (registerParam target handler paramName paramIndex
           (registerServiceParameter target handler paramIndex serviceType reg)) target handler)
     = map p_index (parametersOf
          (registerServiceParameter target handler paramIndex serviceType reg) target handler)
   \<and> find (\<lambda>p. p_index p = paramIndex)
        (parametersOf (registerParam target handler paramName paramIndex
           (registerServiceParameter target handler paramIndex serviceType reg)) target handler)
     = Some \<lparr>p_index = paramIndex, p_type = ParamKind, p_name = Some paramName,
             p_serviceType = Some serviceType\<rparr>"
  by (simp add: paramsUnique_registerParam paramsUnique_registerServiceParameter
      paramsUnique_registerAll paramsUnique_empty
      parametersOf_registerParam parametersOf_registerServiceParameter
      find_upsertParam find_upsertService
      map_index_upsertParam[of paramIndex paramName "upsertService paramIndex serviceType ps" for ps]
      map_index_upsertService[of paramIndex serviceType "upsertParam paramIndex paramName ps" for ps]
      index_in_upsertParam index_in_upsertService)

theorem parameter_index_unique_witness:
  "paramsUnique (emptyRegistry :: nat RoutingRegistry)
   \<and> paramsUnique (registerParam (0::nat) ''h'' ''timezone'' 0 emptyRegistry)
   \<and> paramsUnique (registerAll (\<lambda>c h. [])
         [RegisterParam (0::nat) ''h'' ''timezone'' 0, RegisterServiceParameter 0 ''h'' 0 1]
         emptyRegistry)
   \<and> parametersOf (registerServiceParameter (0::nat) ''h'' 0 1
                     (registerParam 0 ''h'' ''timezone'' 0 emptyRegistry)) 0 ''h''
     = [\<lparr>p_index = 0, p_type = ServiceKind, p_name = Some ''timezone'',
         p_serviceType = Some 1\<rparr>]"
proof -
  have p: "parametersOf (emptyRegistry :: nat RoutingRegistry) 0 ''h'' = []"
    by (simp add: parametersOf_def routeOf_def metadataOf_def emptyRegistry_def)
  have l: "parametersOf (registerServiceParameter (0::nat) ''h'' 0 1
                     (registerParam 0 ''h'' ''timezone'' 0 emptyRegistry)) 0 ''h''
     = [\<lparr>p_index = 0, p_type = ServiceKind, p_name = Some ''timezone'',
         p_serviceType = Some 1\<rparr>]"
    by (simp add: parametersOf_registerParam parametersOf_registerServiceParameter p
        upsertParam_def upsertService_def)
  show ?thesis
    using paramsUnique_empty[where ?'a = nat] l
      parameter_index_unique[of "emptyRegistry :: nat RoutingRegistry" 0 "''h''" "''timezone''" 0 1
        "\<lambda>c h. []"
        "[RegisterParam (0::nat) ''h'' ''timezone'' 0, RegisterServiceParameter 0 ''h'' 0 1]"]
    by blast
qed

section \<open>Properties of the service registry\<close>

lemma getOrCreateService_result:
  "getOrCreateService ctorThrows sr s = Inr (v, sr') \<Longrightarrow>
   truthy v \<and> services sr' s = Some v"
  by (auto simp: getOrCreateService_def getService_def Let_def
      split: if_splits option.splits)

lemma getOrCreateService_hit:
  "services sr s = Some v \<Longrightarrow> truthy v \<Longrightarrow> getOrCreateService ctorThrows sr s = Inr (v, sr)"
  by (simp add: getOrCreateService_def getService_def)

lemma getOrCreateService_falsy_registered:
  "\<not> truthy i \<Longrightarrow> ctorThrows s = None \<Longrightarrow>
   getOrCreateService ctorThrows (registerService s i sr) s
     = Inr (JObject (constructed sr),
            \<lparr>services = (services sr)(s \<mapsto> JObject (constructed sr)),
             constructed = Suc (constructed sr)\<rparr>)"
  by (simp add: getOrCreateService_def getService_def registerService_def Let_def)

text \<open>
  Claim C6. When the constructor of \<open>s\<close> does not throw, \<^verbatim>\<open>getOrCreateService(s)\<close> returns;
  whenever it returns an instance, the next call returns the same instance and leaves
  the registry as it is, number of constructed objects included, whatever the
  constructor would do; and after \<^verbatim>\<open>registerService(s, i)\<close> with an object \<open>i\<close> the next
  \<^verbatim>\<open>getOrCreateService(s)\<close> returns \<open>i\<close>, whatever was cached before.
\<close>

theorem getOrCreateService_cached:
  "(ctorThrows s = None \<longrightarrow> (\<exists>v sr'. getOrCreateService ctorThrows sr s = Inr (v, sr')))
   \<and> (\<forall>v sr'. getOrCreateService ctorThrows sr s = Inr (v, sr') \<longrightarrow>
         (\<forall>ctorThrows'. getOrCreateService ctorThrows' sr' s = Inr (v, sr')))
   \<and> getOrCreateService ctorThrows (registerService s (JObject a) sr) s
       = Inr (JObject a, registerService s (JObject a) sr)"
proof (intro conjI allI impI)
  assume "ctorThrows s = None"
  then show "\<exists>v sr'. getOrCreateService ctorThrows sr s = Inr (v, sr')"
    by (simp add: getOrCreateService_def Let_def)
next
  fix v sr' ctorThrows'
  assume "getOrCreateService ctorThrows sr s = Inr (v, sr')"
  then have "truthy v \<and> services sr' s = Some v" by (rule getOrCreateService_result)
  then show "getOrCreateService ctorThrows' sr' s = Inr (v, sr')"
    by (simp add: getOrCreateService_hit)
next
  show "getOrCreateService ctorThrows (registerService s (JObject a) sr) s
       = Inr (JObject a, registerService s (JObject a) sr)"
    by (simp add: getOrCreateService_hit registerService_def)
qed

theorem getOrCreateService_cached_witness:
  "appConstructors TimezoneService = None
   \<and> getOrCreateService appConstructors emptyServices TimezoneService
       = Inr (JObject 0, \<lparr>services = [TimezoneService \<mapsto> JObject 0], constructed = 1\<rparr>)
   \<and> getOrCreateService (\<lambda>c. Some NonError)
         \<lparr>services = [TimezoneService \<mapsto> JObject 0], constructed = 1\<rparr> TimezoneService
       = Inr (JObject 0, \<lparr>services = [TimezoneService \<mapsto> JObject 0], constructed = 1\<rparr>)"
proof -
  have first: "getOrCreateService appConstructors emptyServices TimezoneService
       = Inr (JObject 0, \<lparr>services = [TimezoneService \<mapsto> JObject 0], constructed = 1\<rparr>)"
    by (simp add: getOrCreateService_def getService_def emptyServices_def appConstructors_def
        Let_def)
  from getOrCreateService_cached[of appConstructors TimezoneService emptyServices 0] first
  have "getOrCreateService (\<lambda>c. Some NonError)
         \<lparr>services = [TimezoneService \<mapsto> JObject 0], constructed = 1\<rparr> TimezoneService
       = Inr (JObject 0, \<lparr>services = [TimezoneService \<mapsto> JObject 0], constructed = 1\<rparr>)"
    by blast
  with first show ?thesis by (simp add: appConstructors_def)
qed

section \<open>Properties of the router\<close>

lemma statusCodeOf_sendErrorResponse:
  "statusCodeOf (sendErrorResponse res code err msg extra) = Some code"
  by (simp add: statusCodeOf_def statusCodes_def sendErrorResponse_def sendJsonResponse_def)

lemma statusCodeOf_corsHeaders: "statusCodeOf (corsHeaders :: 'r resOp list) = None"
  by (simp add: statusCodeOf_def statusCodes_def corsHeaders_def)

lemma bodiesOf_corsHeaders: "bodiesOf (corsHeaders :: 'r resOp list) = []"
  by (simp add: bodiesOf_def corsHeaders_def)

lemma handleError_explicit:
  "handleError res urlParams error =
     res @ [SetStatusCode (if isValidationError (errorMessageOf error) then 400 else 500),
            SetHeader ''Content-Type'' ''application/json'',
            End (JsonObject
              ([(''error'', if isValidationError (errorMessageOf error)
                            then ''Invalid timezone'' else ''Internal server error''),
                (''message'', errorMessageOf error)] @
               (if isValidationError (errorMessageOf error) then
                  (case urlParams ''timezone'' of
                     None \<Rightarrow> []
                   | Some tz \<Rightarrow> [(''requested_timezone'', tz)])
                else [])))]"
  by (simp add: handleError_def Let_def sendErrorResponse_def sendJsonResponse_def
      stringifyFields_def split: option.splits)

text \<open>
  Claim C2. Let a request be dispatched to a route whose invocation throws (the handler,
  or the extraction of its arguments). The request is handled, and the response is
  written once: with status 400 when the error message contains \<open>timezone\<close> or \<open>Invalid\<close>,
  and then the body has the fields \<open>error\<close> and \<open>message\<close>, and \<open>requested_timezone\<close> with
  the captured \<open>timezone\<close> value when there is one; with status 500 otherwise, and then the
  body has the fields \<open>error\<close> and \<open>message\<close>. The message of a thrown value that is not an
  \<^verbatim>\<open>Error\<close> is the fixed text of \<open>errorMessageOf\<close>.
\<close>

theorem handleRequest_error_classification:
  assumes "findHandler reg controllerList method pathname = Inr (Some (route, urlParams, handler))"
    and "invokeHandler ctorThrows sr route urlParams handler = (Throws error, sr')"
  shows "(let message = errorMessageOf error;
              validation = (includesStr message ''timezone'' \<or> includesStr message ''Invalid'');
              res = corsHeaders @
                [SetStatusCode (if validation then 400 else 500),
                 SetHeader ''Content-Type'' ''application/json'',
                 End (JsonObject
                   ([(''error'', if validation then ''Invalid timezone''
                                 else ''Internal server error''),
                     (''message'', message)] @
                    (if validation then
                       (case urlParams ''timezone'' of
                          None \<Rightarrow> []
                        | Some tz \<Rightarrow> [(''requested_timezone'', tz)])
                     else [])))]
          in handleRequest ctorThrows reg controllerList sr method pathname
               = Inr (True, res, sr')
             \<and> statusCodeOf res = Some (if validation then 400 else 500))"
proof -
  have h: "handleRequest ctorThrows reg controllerList sr method pathname
      = Inr (True, handleError corsHeaders urlParams error, sr')"
    using assms by (simp add: handleRequest_def)
  have s: "statusCodeOf (handleError corsHeaders urlParams error :: 'b resOp list)
      = Some (if isValidationError (errorMessageOf error) then 400 else 500)"
    by (simp add: handleError_def Let_def statusCodeOf_sendErrorResponse)
  show ?thesis
    using h s unfolding handleError_explicit Let_def isValidationError_def
    by simp
qed

lemma app_timezone_routes:
  "getControllerMetadata (appRegistry reflect reflectCtor) TimezoneController
     = Some \<lparr>routes = [timeRoute]\<rparr>"
  by (simp add: appRegistry_def registerAll_def appRegistrations_def getControllerMetadata_def
      registerParam_def registerRoute_def registerServiceParameter_def setRoutes_def
      metadataOf_def findOrCreateRoute_def upsertParam_def upsertService_def array_set_def
      registerWebSocketRoute_def registerWebSocketParam_def emptyRegistry_def timeRoute_def
      Let_def)

lemma app_findHandler:
  assumes "matchRoute pathname ''/time/:timezone'' = Inr (Some urlParams)"
  shows "findHandler (appRegistry reflect reflectCtor) (appControllers e) ''GET'' pathname
     = Inr (Some (timeRoute, urlParams, getTimeByTimezone e))"
  using assms
  by (simp add: appControllers_def timezoneController_def app_timezone_routes)
     (simp add: timeRoute_def)

lemma app_invokeHandler:
  assumes "urlParams ''timezone'' = Some tz" and "services sr TimezoneService = None"
  shows "invokeHandler appConstructors sr timeRoute urlParams handler
     = (handler [JStr tz, JObject (constructed sr)],
        sr\<lparr>services := (services sr)(TimezoneService \<mapsto> JObject (constructed sr)),
           constructed := Suc (constructed sr)\<rparr>)"
  using assms
  by (simp add: invokeHandler_def extractParameters_def timeRoute_def urlParam_def getProperty_def
      getOrCreateService_def getService_def appConstructors_def array_set_def toArguments_def
      Let_def)

lemma getTimeByTimezone_internal_failure:
  assumes "isValidTimezone e tz" and "formatNow e tz = None"
  shows "getTimeByTimezone e [JStr tz, JObject a] = Throws (JsError ''Failed to get time in timezone'')"
  using assms
  by (simp add: getTimeByTimezone_def getValidatedTimeInTimezone_def getTimeInTimezone_def)

lemma internal_failure_is_validation:
  "isValidationError ''Failed to get time in timezone''"
  by (simp add: isValidationError_def startsWith_def)

lemma app_internal_failure_status:
  assumes "matchRoute pathname ''/time/:timezone'' = Inr (Some urlParams)"
    and "urlParams ''timezone'' = Some tz"
    and "services sr TimezoneService = None"
    and "isValidTimezone e tz" and "formatNow e tz = None"
  shows "handleRequest appConstructors (appRegistry reflect reflectCtor) (appControllers e) sr
           ''GET'' pathname
     = Inr (True,
            corsHeaders @
              [SetStatusCode 400, SetHeader ''Content-Type'' ''application/json'',
               End (JsonObject [(''error'', ''Invalid timezone''),
                                (''message'', ''Failed to get time in timezone''),
                                (''requested_timezone'', tz)])],
            sr\<lparr>services := (services sr)(TimezoneService \<mapsto> JObject (constructed sr)),
               constructed := Suc (constructed sr)\<rparr>)"
proof -
  have inv: "invokeHandler appConstructors sr timeRoute urlParams (getTimeByTimezone e)
     = (Throws (JsError ''Failed to get time in timezone''),
        sr\<lparr>services := (services sr)(TimezoneService \<mapsto> JObject (constructed sr)),
           constructed := Suc (constructed sr)\<rparr>)"
    using app_invokeHandler[of urlParams tz sr "getTimeByTimezone e"] assms(2,3)
      getTimeByTimezone_internal_failure[OF assms(4,5)]
    by simp
  show ?thesis
    using inv internal_failure_is_validation assms(2)
    by (simp add: handleRequest_def app_findHandler[OF assms(1)] handleError_def
        errorMessageOf_def sendErrorResponse_def sendJsonResponse_def stringifyFields_def)
qed

text \<open>The exception of \<^verbatim>\<open>matchRoute\<close> on a \<^verbatim>\<open>GET\<close> of the application leaves \<^verbatim>\<open>handleRequest\<close>;
  the callback of the server answers 500.\<close>

lemma serverCallback_malformed_escape:
  "serverCallback appConstructors (appRegistry reflect reflectCtor) (appControllers e) sr
     ''GET'' ''/time/%''
   = (corsHeaders @
        [SetStatusCode 500, SetHeader ''Content-Type'' ''application/json'',
         End (JsonObject [(''error'', ''Internal server error''),
                          (''message'', ''An unexpected error occurred'')])],
      sr)"
proof -
  have m: "matchRoute ''/time/%'' ''/time/:timezone'' = Inl uriError"
    by (simp add: matchRoute_def segments_def startsWith_def literalPartsMatch_def setProperty_def)
  have f: "findHandler (appRegistry reflect reflectCtor) (appControllers e) ''GET'' ''/time/%''
      = Inl uriError"
    using m by (simp add: appControllers_def timezoneController_def app_timezone_routes)
               (simp add: timeRoute_def)
  show ?thesis
    by (simp add: serverCallback_def handleRequest_def f sendErrorResponse_def
        sendJsonResponse_def stringifyFields_def)
qed

lemma match_invalid:
  "matchRoute ''/time/Invalid/Timezone'' ''/time/:timezone''
     = Inr (Some [''timezone'' \<mapsto> ''Invalid/Timezone''])"
  by (simp add: matchRoute_def segments_def startsWith_def literalPartsMatch_def setProperty_def)

theorem handleRequest_error_classification_witness:
  "handleRequest appConstructors (appRegistry (\<lambda>c h. []) (\<lambda>c. [])) (appControllers utcEngine)
        emptyServices ''GET'' ''/time/Invalid/Timezone''
     = Inr (True,
            corsHeaders @
              [SetStatusCode 400, SetHeader ''Content-Type'' ''application/json'',
               End (JsonObject
                 [(''error'', ''Invalid timezone''),
                  (''message'',
                   ''The timezone identifier '' @ [CHR 0x27] @ ''Invalid/Timezone'' @ [CHR 0x27]
                     @ '' is not valid''),
                  (''requested_timezone'', ''Invalid/Timezone'')])],
            \<lparr>services = [TimezoneService \<mapsto> JObject 0], constructed = 1\<rparr>)
   \<and> handleRequest throwingConstructors (appRegistry (\<lambda>c h. []) (\<lambda>c. []))
        (appControllers utcEngine) emptyServices ''GET'' ''/time/Invalid/Timezone''
     = Inr (True,
            corsHeaders @
              [SetStatusCode 500, SetHeader ''Content-Type'' ''application/json'',
               End (JsonObject
                 [(''error'', ''Internal server error''),
                  (''message'', ''Constructor error'')])],
            emptyServices)"
proof -
  let ?reg = "appRegistry (\<lambda>c h. []) (\<lambda>c. [])"
  let ?params = "[''timezone'' \<mapsto> ''Invalid/Timezone'']"
  have found: "findHandler ?reg (appControllers utcEngine) ''GET'' ''/time/Invalid/Timezone''
      = Inr (Some (timeRoute, ?params, getTimeByTimezone utcEngine))"
    by (rule app_findHandler[OF match_invalid])
  have thrown1: "invokeHandler appConstructors emptyServices timeRoute ?params
        (getTimeByTimezone utcEngine)
      = (Throws (JsError (''The timezone identifier '' @ [CHR 0x27] @ ''Invalid/Timezone''
                            @ [CHR 0x27] @ '' is not valid'')),
         \<lparr>services = [TimezoneService \<mapsto> JObject 0], constructed = 1\<rparr>)"
    using app_invokeHandler[of ?params "''Invalid/Timezone''" emptyServices
        "getTimeByTimezone utcEngine"]
    by (simp add: emptyServices_def getTimeByTimezone_def getValidatedTimeInTimezone_def
        isValidTimezone_def utcEngine_def)
  have thrown2: "invokeHandler throwingConstructors emptyServices timeRoute ?params
        (getTimeByTimezone utcEngine)
      = (Throws (JsError ''Constructor error''), emptyServices)"
    by (simp add: invokeHandler_def extractParameters_def timeRoute_def urlParam_def getProperty_def
        getOrCreateService_def getService_def throwingConstructors_def array_set_def
        emptyServices_def Let_def)
  show ?thesis
    using handleRequest_error_classification[OF found thrown1]
      handleRequest_error_classification[OF found thrown2]
    by (simp add: Let_def errorMessageOf_def startsWith_def)
qed

text \<open>
  Claim C10. Let a request be dispatched to a route whose handler returns \<^verbatim>\<open>undefined\<close>.
  The request is reported as handled, the calls on the response are the four header
  calls made before dispatch, among them no status code and no body, and the server's
  callback adds nothing: the 404 fallback does not run.
\<close>

theorem handleRequest_undefined_result:
  assumes "findHandler reg controllerList method pathname = Inr (Some (route, urlParams, handler))"
    and "invokeHandler ctorThrows sr route urlParams handler = (Returns None, sr')"
  shows "(let res = corsHeaders
          in handleRequest ctorThrows reg controllerList sr method pathname = Inr (True, res, sr')
             \<and> statusCodeOf res = None
             \<and> bodiesOf res = []
             \<and> serverCallback ctorThrows reg controllerList sr method pathname = (res, sr'))"
  using assms
  by (simp add: handleRequest_def serverCallback_def statusCodeOf_corsHeaders bodiesOf_corsHeaders)

theorem handleRequest_undefined_result_witness:
  "handleRequest (\<lambda>c. None) pingRegistry [pingController] emptyServices ''GET'' ''/ping''
     = Inr (True, corsHeaders, emptyServices)
   \<and> serverCallback (\<lambda>c. None) pingRegistry [pingController] emptyServices ''GET'' ''/ping''
     = (corsHeaders, emptyServices)"
proof -
  let ?route = "\<lparr>r_method = ''GET'', r_path = ''/ping'', r_handler = ''ping'',
                  r_paramNames = [], r_parameters = []\<rparr> :: nat RouteMetadata"
  have m: "matchRoute ''/ping'' ''/ping'' = Inr (Some Map.empty)"
    by (simp add: matchRoute_def segments_def startsWith_def standardMatch_def setProperty_def)
  have found: "findHandler pingRegistry [pingController] ''GET'' ''/ping''
      = Inr (Some (?route, Map.empty, \<lambda>args. Returns None))"
    using m
    by (simp add: pingRegistry_def pingController_def registerRoute_def setRoutes_def
        metadataOf_def emptyRegistry_def autoDetectServiceParameters_def
        getControllerMetadata_def Let_def)
  have inv: "invokeHandler (\<lambda>c. None) emptyServices ?route Map.empty (\<lambda>args. Returns None)
      = (Returns None :: appResult outcome, emptyServices)"
    by (simp add: invokeHandler_def extractParameters_def)
  show ?thesis
    using handleRequest_undefined_result[OF found inv] by (simp add: Let_def)
qed

lemma match_utc: "matchRoute ''/time/Etc/UTC'' ''/time/:timezone'' = Inr (Some [''timezone'' \<mapsto> ''Etc/UTC''])"
  by (simp add: matchRoute_def segments_def startsWith_def literalPartsMatch_def setProperty_def)

text \<open>
  Claim C3 fails on the code. With a date library that accepts \<open>Etc/UTC\<close> and whose time
  computation throws, \<^verbatim>\<open>GET /time/Etc/UTC\<close> is answered with status 400 and the error
  \<open>Invalid timezone\<close>: the message of the internal failure, \<open>Failed to get time in
  timezone\<close>, contains the word that the router takes for a validation error.
\<close>

theorem valid_timezone_internal_failure_is_400:
  "isValidTimezone failingEngine ''Etc/UTC''
   \<and> getTimeInTimezone failingEngine ''Etc/UTC'' = Inl (JsError ''Failed to get time in timezone'')
   \<and> handleRequest appConstructors (appRegistry (\<lambda>c h. []) (\<lambda>c. [])) (appControllers failingEngine)
        emptyServices ''GET'' ''/time/Etc/UTC''
     = Inr (True,
            corsHeaders @
              [SetStatusCode 400, SetHeader ''Content-Type'' ''application/json'',
               End (JsonObject [(''error'', ''Invalid timezone''),
                                (''message'', ''Failed to get time in timezone''),
                                (''requested_timezone'', ''Etc/UTC'')])],
            \<lparr>services = [TimezoneService \<mapsto> JObject 0], constructed = 1\<rparr>)"
proof -
  have v: "isValidTimezone failingEngine ''Etc/UTC''"
    by (simp add: isValidTimezone_def failingEngine_def)
  have f: "formatNow failingEngine ''Etc/UTC'' = None"
    by (simp add: failingEngine_def)
  have g: "getTimeInTimezone failingEngine ''Etc/UTC'' = Inl (JsError ''Failed to get time in timezone'')"
    by (simp add: getTimeInTimezone_def f)
  have s: "services (emptyServices :: appClass ServiceRegistry) TimezoneService = None"
    by (simp add: emptyServices_def)
  show ?thesis
    using v g s f match_utc
      app_internal_failure_status[of "''/time/Etc/UTC''" "[''timezone'' \<mapsto> ''Etc/UTC'']"
        "''Etc/UTC''" emptyServices failingEngine "\<lambda>c h. []" "\<lambda>c. []"]
    by (simp add: emptyServices_def)
qed

section \<open>Properties of the socket server\<close>

lemma sendTimeUpdate_frame:
  "ss_timers (sendTimeUpdate e key client w) = ss_timers w
   \<and> ss_clients (sendTimeUpdate e key client w) = ss_clients w
   \<and> ss_registry (sendTimeUpdate e key client w) = ss_registry w
   \<and> ss_instances (sendTimeUpdate e key client w) = ss_instances w
   \<and> ss_rooms (sendTimeUpdate e key client w) = ss_rooms w
   \<and> ss_listeners (sendTimeUpdate e key client w) = ss_listeners w"
  by (simp add: sendTimeUpdate_def emit_def Let_def split: option.splits prod.splits)

lemma updateInstance_frame:
  "ss_timers (updateInstance key f w) = ss_timers w
   \<and> ss_clients (updateInstance key f w) = ss_clients w
   \<and> ss_registry (updateInstance key f w) = ss_registry w
   \<and> ss_rooms (updateInstance key f w) = ss_rooms w
   \<and> ss_listeners (updateInstance key f w) = ss_listeners w
   \<and> ss_emitted (updateInstance key f w) = ss_emitted w"
  by (simp add: updateInstance_def split: option.splits)

lemma updateInstance_present:
  "ss_instances w key \<noteq> None \<Longrightarrow> ss_instances (updateInstance key f w) key \<noteq> None"
  by (auto simp: updateInstance_def split: option.splits)

lemma onConnect_effect:
  "ss_timers (onConnect e key client w)
     = ss_timers w @ [\<lparr>tm_instance = key, tm_client = client, tm_active = True\<rparr>]
   \<and> ss_clients (onConnect e key client w)
     = (ss_clients w)[client := (ss_clients w ! client)\<lparr>cl_intervalId := Some (length (ss_timers w))\<rparr>]
   \<and> ss_registry (onConnect e key client w) = ss_registry w
   \<and> ss_rooms (onConnect e key client w) = ss_rooms w
   \<and> ss_listeners (onConnect e key client w)
     = ss_listeners w @ [(cl_socket (ss_clients w ! client), OnDisconnect, key, client),
                         (cl_socket (ss_clients w ! client), OnGetTime, key, client),
                         (cl_socket (ss_clients w ! client), OnChangeTimezone, key, client)]"
proof -
  have sock: "cl_socket (xs[client := (xs ! client)\<lparr>cl_intervalId := v\<rparr>] ! client)
      = cl_socket (xs ! client)" for xs :: "SocketIOClient list" and v
    by (cases "client < length xs") (simp_all add: list_update_beyond)
  show ?thesis
    by (simp add: onConnect_def setInterval_def Let_def sendTimeUpdate_frame updateInstance_frame
        sock)
qed

lemma onConnect_present:
  "ss_instances w key \<noteq> None \<Longrightarrow> ss_instances (onConnect e key client w) key \<noteq> None"
  using updateInstance_present[of w key]
  by (simp add: onConnect_def setInterval_def Let_def sendTimeUpdate_frame)

lemma webSockets_register: "webSockets (register reflect op reg) = webSockets reg"
  by (cases op)
     (simp_all add: registerRoute_def registerParam_def registerServiceParameter_def
        setRoutes_def Let_def split: option.splits)

lemma webSockets_registerAll: "webSockets (registerAll reflect ops reg) = webSockets reg"
  unfolding registerAll_def
  by (induction ops arbitrary: reg) (simp_all add: webSockets_register)

lemma app_webSockets:
  "getAllWebSockets (appRegistry reflect reflectCtor)
     = [(TimezoneWebSocket,
         \<lparr>ws_path = ''/time/live/:timezone'', ws_controllerClass = TimezoneWebSocket,
          ws_parameters = autoDetectWebSocketLoop 0 (reflectCtor TimezoneWebSocket) []\<rparr>)]"
  by (simp add: getAllWebSockets_def appRegistry_def webSockets_registerAll
      registerWebSocketRoute_def registerWebSocketParam_def emptyRegistry_def)

lemma fillParameters_total:
  "\<exists>arr' sr'. fillParameters appConstructors urlParams ps arr sr = (Inr arr', sr')"
proof (induction ps arbitrary: arr sr)
  case Nil
  show ?case by simp
next
  case (Cons p ps)
  show ?case
  proof (cases "p_type p")
    case ParamKind
    then show ?thesis using Cons.IH by simp
  next
    case ServiceKind
    show ?thesis
    proof (cases "p_serviceType p")
      case None
      with ServiceKind show ?thesis using Cons.IH by simp
    next
      case (Some c)
      have "\<exists>v sr1. getOrCreateService appConstructors sr c = Inr (v, sr1)"
        by (simp add: getOrCreateService_def appConstructors_def Let_def)
      then obtain v sr1 where "getOrCreateService appConstructors sr c = Inr (v, sr1)"
        by blast
      with ServiceKind Some show ?thesis using Cons.IH by simp
    qed
  qed
qed

lemma resolveWebSocketParameters_total:
  "\<exists>args sr'. resolveWebSocketParameters appConstructors metadata urlParams sr = (Inr args, sr')"
proof -
  obtain arr' sr' where
    "fillParameters appConstructors urlParams (sort_key p_index (ws_parameters metadata)) [] sr
       = (Inr arr', sr')"
    using fillParameters_total by blast
  then show ?thesis by (simp add: resolveWebSocketParameters_def)
qed

lemma getWebSocketInstance_app:
  "\<exists>w'. getWebSocketInstance appConstructors c metadata [''timezone'' \<mapsto> tz] w
           = (Inr (className c @ ''-'' @ tz), w')
        \<and> ss_instances w' (className c @ ''-'' @ tz) \<noteq> None
        \<and> ss_clients w' = ss_clients w \<and> ss_timers w' = ss_timers w
        \<and> ss_registry w' = ss_registry w \<and> ss_rooms w' = ss_rooms w
        \<and> ss_listeners w' = ss_listeners w"
proof (cases "ss_instances w (className c @ ''-'' @ tz)")
  case None
  obtain args sr' where
    "resolveWebSocketParameters appConstructors metadata [''timezone'' \<mapsto> tz] (ss_services w)
       = (Inr args, sr')"
    using resolveWebSocketParameters_total by blast
  with None show ?thesis
    by (simp add: getWebSocketInstance_def appConstructors_def Let_def)
next
  case (Some cached)
  then show ?thesis by (simp add: getWebSocketInstance_def)
qed

lemma match_topic: "matchTimezoneRoute tz ''/time/live/:timezone'' = Some [''timezone'' \<mapsto> tz]"
  by (simp add: matchTimezoneRoute_def segments_def)

lemma handleTimezoneSubscription_app:
  assumes "ss_registry w = appRegistry reflect reflectCtor"
  shows "ss_timers (handleTimezoneSubscription e appConstructors sock tz w)
           = ss_timers w @ [\<lparr>tm_instance = ''TimezoneWebSocket-'' @ tz,
                             tm_client = length (ss_clients w), tm_active = True\<rparr>]
       \<and> ss_clients (handleTimezoneSubscription e appConstructors sock tz w)
           = ss_clients w @ [\<lparr>cl_socket = sock, cl_timezone = tz,
                              cl_intervalId = Some (length (ss_timers w))\<rparr>]
       \<and> ss_registry (handleTimezoneSubscription e appConstructors sock tz w) = ss_registry w
       \<and> ss_rooms (handleTimezoneSubscription e appConstructors sock tz w)
           = ss_rooms w @ [(sock, ''timezone-'' @ tz)]
       \<and> ss_listeners (handleTimezoneSubscription e appConstructors sock tz w)
           = ss_listeners w @
             [(sock, OnDisconnect, ''TimezoneWebSocket-'' @ tz, length (ss_clients w)),
              (sock, OnGetTime, ''TimezoneWebSocket-'' @ tz, length (ss_clients w)),
              (sock, OnChangeTimezone, ''TimezoneWebSocket-'' @ tz, length (ss_clients w))]
       \<and> ss_instances (handleTimezoneSubscription e appConstructors sock tz w)
             (''TimezoneWebSocket-'' @ tz) \<noteq> None"
proof -
  define w1 where "w1 = w\<lparr>ss_rooms := ss_rooms w @ [(sock, ''timezone-'' @ tz)]\<rparr>"
  define metadata where "metadata =
    \<lparr>ws_path = ''/time/live/:timezone'', ws_controllerClass = TimezoneWebSocket,
     ws_parameters = autoDetectWebSocketLoop 0 (reflectCtor TimezoneWebSocket) []\<rparr>"
  obtain w2 where inst:
    "getWebSocketInstance appConstructors TimezoneWebSocket metadata [''timezone'' \<mapsto> tz] w1
       = (Inr (''TimezoneWebSocket-'' @ tz), w2)"
    and frame: "ss_clients w2 = ss_clients w1" "ss_timers w2 = ss_timers w1"
      "ss_registry w2 = ss_registry w1" "ss_rooms w2 = ss_rooms w1"
      "ss_listeners w2 = ss_listeners w1"
    and present: "ss_instances w2 (''TimezoneWebSocket-'' @ tz) \<noteq> None"
    using getWebSocketInstance_app[of TimezoneWebSocket metadata tz w1] by auto
  have reg1: "ss_registry w1 = appRegistry reflect reflectCtor"
    using assms by (simp add: w1_def)
  have path: "ws_path metadata = ''/time/live/:timezone''"
    by (simp add: metadata_def)
  have "handleTimezoneSubscription e appConstructors sock tz w
      = subscriptionLoop e appConstructors sock tz (getAllWebSockets (ss_registry w1)) w1"
    by (simp add: handleTimezoneSubscription_def Let_def w1_def)
  also have "\<dots> = subscriptionLoop e appConstructors sock tz [(TimezoneWebSocket, metadata)] w1"
    by (simp add: reg1 app_webSockets metadata_def)
  also have "\<dots> = onConnect e (''TimezoneWebSocket-'' @ tz) (length (ss_clients w2))
          (w2\<lparr>ss_clients := ss_clients w2 @
                 [\<lparr>cl_socket = sock, cl_timezone = tz, cl_intervalId = None\<rparr>]\<rparr>)"
    using inst by (simp add: path match_topic hasOnConnect_def Let_def)
  finally have run: "handleTimezoneSubscription e appConstructors sock tz w
      = onConnect e (''TimezoneWebSocket-'' @ tz) (length (ss_clients w2))
          (w2\<lparr>ss_clients := ss_clients w2 @
                 [\<lparr>cl_socket = sock, cl_timezone = tz, cl_intervalId = None\<rparr>]\<rparr>)" .
  have present': "ss_instances (w2\<lparr>ss_clients := ss_clients w2 @
                 [\<lparr>cl_socket = sock, cl_timezone = tz, cl_intervalId = None\<rparr>]\<rparr>)
        (''TimezoneWebSocket-'' @ tz) \<noteq> None"
    using present by simp
  show ?thesis
    unfolding run
    using onConnect_present[OF present', of e "length (ss_clients w2)"]
    by (simp add: onConnect_effect frame w1_def)
qed

lemma activeTimersOf_subscription:
  assumes "ss_registry w = appRegistry reflect reflectCtor" and "timersBound w"
  shows "activeTimersOf (handleTimezoneSubscription e appConstructors sock tz w) sock
           = activeTimersOf w sock @
             [\<lparr>tm_instance = ''TimezoneWebSocket-'' @ tz, tm_client = length (ss_clients w),
               tm_active = True\<rparr>]
       \<and> timersBound (handleTimezoneSubscription e appConstructors sock tz w)"
proof -
  note eff = handleTimezoneSubscription_app[OF assms(1), of e sock tz]
  have old: "filter (\<lambda>t. tm_active t \<and> tm_client t < Suc (length (ss_clients w))
                 \<and> cl_socket ((ss_clients w @ [c]) ! tm_client t) = sock) (ss_timers w)
      = filter (\<lambda>t. tm_active t \<and> tm_client t < length (ss_clients w)
                 \<and> cl_socket (ss_clients w ! tm_client t) = sock) (ss_timers w)" for c
    using assms(2)
    by (intro filter_cong) (auto simp: timersBound_def list_all_iff nth_append)
  have bound: "timersBound (handleTimezoneSubscription e appConstructors sock tz w)"
    using assms(2) by (auto simp: timersBound_def list_all_iff eff)
  show ?thesis
    using bound by (simp add: activeTimersOf_def eff old)
qed

lemma startedServer_facts:
  "ss_registry startedServer = appRegistry (\<lambda>c h. []) appCtorReflection"
  "timersBound startedServer"
  "ss_timers startedServer = []" "ss_clients startedServer = []"
  "ss_rooms startedServer = []" "ss_listeners startedServer = []"
  by (simp_all add: startedServer_def initialServer_def timersBound_def)

lemma subscribedServer_facts:
  "ss_registry subscribedServer = appRegistry (\<lambda>c h. []) appCtorReflection"
  "timersBound subscribedServer"
  "ss_timers subscribedServer
     = [\<lparr>tm_instance = ''TimezoneWebSocket-Etc/UTC'', tm_client = 0, tm_active = True\<rparr>]"
  "ss_clients subscribedServer
     = [\<lparr>cl_socket = 0, cl_timezone = ''Etc/UTC'', cl_intervalId = Some 0\<rparr>]"
  "ss_rooms subscribedServer = [(0, ''timezone-Etc/UTC'')]"
  "ss_listeners subscribedServer
     = [(0, OnDisconnect, ''TimezoneWebSocket-Etc/UTC'', 0),
        (0, OnGetTime, ''TimezoneWebSocket-Etc/UTC'', 0),
        (0, OnChangeTimezone, ''TimezoneWebSocket-Etc/UTC'', 0)]"
  "ss_instances subscribedServer ''TimezoneWebSocket-Etc/UTC'' \<noteq> None"
  "activeTimersOf subscribedServer 0
     = [\<lparr>tm_instance = ''TimezoneWebSocket-Etc/UTC'', tm_client = 0, tm_active = True\<rparr>]"
  using handleTimezoneSubscription_app[OF startedServer_facts(1), of utcEngine 0 "''Etc/UTC''"]
    activeTimersOf_subscription[OF startedServer_facts(1,2), of utcEngine 0 "''Etc/UTC''"]
  by (simp_all add: subscribedServer_def startedServer_facts activeTimersOf_def)

text \<open>
  Claim C7, as the code has it. In the application, every subscription of a connection,
  the first one or a later one, adds one per-connection record and starts one timer for
  it; the records and the timers that exist stay as they are, active timers included.
  A connection that subscribes again therefore has one more active timer than before.
\<close>

theorem resubscribe_keeps_timers:
  assumes "ss_registry w = appRegistry reflect reflectCtor" and "timersBound w"
  shows "(let w' = handleTimezoneSubscription e appConstructors sock tz w;
              added = \<lparr>tm_instance = ''TimezoneWebSocket-'' @ tz,
                       tm_client = length (ss_clients w), tm_active = True\<rparr>
          in ss_timers w' = ss_timers w @ [added]
             \<and> ss_clients w' = ss_clients w @
                  [\<lparr>cl_socket = sock, cl_timezone = tz, cl_intervalId = Some (length (ss_timers w))\<rparr>]
             \<and> activeTimersOf w' sock = activeTimersOf w sock @ [added]
             \<and> ss_registry w' = ss_registry w
             \<and> timersBound w')"
  using handleTimezoneSubscription_app[OF assms(1), of e sock tz]
    activeTimersOf_subscription[OF assms, of e sock tz]
  by (simp add: Let_def)

theorem resubscribe_keeps_timers_witness:
  "timersBound subscribedServer
   \<and> ss_timers (handleTimezoneSubscription utcEngine appConstructors 0 ''Europe/Paris''
                  subscribedServer)
     = [\<lparr>tm_instance = ''TimezoneWebSocket-Etc/UTC'', tm_client = 0, tm_active = True\<rparr>,
        \<lparr>tm_instance = ''TimezoneWebSocket-Europe/Paris'', tm_client = 1, tm_active = True\<rparr>]
   \<and> ss_clients (handleTimezoneSubscription utcEngine appConstructors 0 ''Europe/Paris''
                   subscribedServer)
     = [\<lparr>cl_socket = 0, cl_timezone = ''Etc/UTC'', cl_intervalId = Some 0\<rparr>,
        \<lparr>cl_socket = 0, cl_timezone = ''Europe/Paris'', cl_intervalId = Some 1\<rparr>]"
  using resubscribe_keeps_timers[OF subscribedServer_facts(1,2), of utcEngine 0 "''Europe/Paris''"]
  by (simp add: Let_def subscribedServer_facts)

text \<open>
  Claim C7 as stated fails: after a connection has subscribed to \<open>Etc/UTC\<close> and then to
  \<open>Europe/Paris\<close>, two timers of that connection are active, the one of the first
  subscription among them.
\<close>

theorem resubscribe_two_timers_counterexample:
  "activeTimersOf
     (socketRun utcEngine appConstructors
        [SubscribeTimezone 0 ''Etc/UTC'', SubscribeTimezone 0 ''Europe/Paris''] startedServer) 0
   = [\<lparr>tm_instance = ''TimezoneWebSocket-Etc/UTC'', tm_client = 0, tm_active = True\<rparr>,
      \<lparr>tm_instance = ''TimezoneWebSocket-Europe/Paris'', tm_client = 1, tm_active = True\<rparr>]"
proof -
  have run: "socketRun utcEngine appConstructors
        [SubscribeTimezone 0 ''Etc/UTC'', SubscribeTimezone 0 ''Europe/Paris''] startedServer
      = handleTimezoneSubscription utcEngine appConstructors 0 ''Europe/Paris'' subscribedServer"
    by (simp add: socketRun_def subscribedServer_def)
  show ?thesis
    unfolding run
    using activeTimersOf_subscription[OF subscribedServer_facts(1,2), of utcEngine 0 "''Europe/Paris''"]
    by (simp add: subscribedServer_facts)
qed

subsection \<open>The change of a connection's timezone\<close>

lemma changeTimezone_single:
  assumes "client < length (ss_clients w)" and "ss_instances w key = Some this"
  shows "changeTimezone e key client tz w
      = w\<lparr>ss_clients := (ss_clients w)[client := (ss_clients w ! client)\<lparr>cl_timezone := tz\<rparr>],
          ss_emitted := ss_emitted w @
            [(cl_socket (ss_clients w ! client),
              fst (timeUpdateMessage e (wc_timezoneService this) tz),
              snd (timeUpdateMessage e (wc_timezoneService this) tz))]\<rparr>"
  using assms
  by (simp add: changeTimezone_def sendTimeUpdate_def emit_def Let_def split: prod.splits)

lemma socket_after_update:
  "cl_socket (xs[c := (xs ! c)\<lparr>cl_timezone := tz\<rparr>] ! b) = cl_socket (xs ! b)"
  by (cases "b = c"; cases "c < length xs") (simp_all add: list_update_beyond)

lemma retarget_step:
  "retarget targets tz (xs[client := (xs ! client)\<lparr>cl_timezone := tz\<rparr>])
     = retarget (client # targets) tz xs"
proof -
  have "(xs[client := (xs ! client)\<lparr>cl_timezone := tz\<rparr>] ! i)\<lparr>cl_timezone := tz\<rparr>
      = (xs ! i)\<lparr>cl_timezone := tz\<rparr>" if "i < length xs" for i
    using that by (cases "i = client") simp_all
  then show ?thesis
    by (auto simp: retarget_def list_eq_iff_nth_eq nth_enumerate_eq nth_list_update)
qed

lemma retarget_nil: "retarget [] tz xs = xs"
  by (auto simp: retarget_def list_eq_iff_nth_eq nth_enumerate_eq)

lemma fold_changeTimezone:
  assumes "\<forall>(key, client) \<in> set ls.
             client < length (ss_clients w) \<and> cl_socket (ss_clients w ! client) = sock
             \<and> ss_instances w key \<noteq> None"
  shows "\<exists>new. fold (\<lambda>(key, client). changeTimezone e key client tz) ls w
           = w\<lparr>ss_clients := retarget (map snd ls) tz (ss_clients w),
               ss_emitted := ss_emitted w @ new\<rparr>
         \<and> length new = length ls \<and> list_all (\<lambda>m. fst m = sock) new"
  using assms
proof (induction ls arbitrary: w)
  case Nil
  show ?case by (simp add: retarget_nil)
next
  case (Cons a ls)
  obtain key client where a: "a = (key, client)" by (cases a)
  from Cons.prems a obtain this where
    c: "client < length (ss_clients w)" and s: "cl_socket (ss_clients w ! client) = sock"
    and i: "ss_instances w key = Some this"
    by auto
  define w1 where "w1 = changeTimezone e key client tz w"
  have w1: "w1 = w\<lparr>ss_clients := (ss_clients w)[client := (ss_clients w ! client)\<lparr>cl_timezone := tz\<rparr>],
          ss_emitted := ss_emitted w @
            [(cl_socket (ss_clients w ! client),
              fst (timeUpdateMessage e (wc_timezoneService this) tz),
              snd (timeUpdateMessage e (wc_timezoneService this) tz))]\<rparr>"
    unfolding w1_def by (rule changeTimezone_single[OF c i])
  have pre: "\<forall>(key, client) \<in> set ls.
             client < length (ss_clients w1) \<and> cl_socket (ss_clients w1 ! client) = sock
             \<and> ss_instances w1 key \<noteq> None"
    using Cons.prems by (auto simp: w1 socket_after_update)
  from Cons.IH[OF pre] obtain new where
    f: "fold (\<lambda>(key, client). changeTimezone e key client tz) ls w1
           = w1\<lparr>ss_clients := retarget (map snd ls) tz (ss_clients w1),
                ss_emitted := ss_emitted w1 @ new\<rparr>"
    and n: "length new = length ls" "list_all (\<lambda>m. fst m = sock) new"
    by blast
  let ?x = "(cl_socket (ss_clients w ! client),
              fst (timeUpdateMessage e (wc_timezoneService this) tz),
              snd (timeUpdateMessage e (wc_timezoneService this) tz))"
  have "fold (\<lambda>(key, client). changeTimezone e key client tz) (a # ls) w
      = w\<lparr>ss_clients := retarget (map snd (a # ls)) tz (ss_clients w),
          ss_emitted := ss_emitted w @ (?x # new)\<rparr>"
    using f by (simp add: a w1_def[symmetric]) (simp add: w1 retarget_step)
  moreover have "length (?x # new) = length (a # ls)" using n by simp
  moreover have "list_all (\<lambda>m. fst m = sock) (?x # new)" using n s by simp
  ultimately show ?case by blast
qed

lemma changeTimezone_event_effect:
  assumes "listenersBound w"
  shows "\<exists>new. socketStep e ctorThrows (ChangeTimezone sock tz) w
           = w\<lparr>ss_clients := retarget (map snd (listenersOf w sock OnChangeTimezone)) tz
                                (ss_clients w),
               ss_emitted := ss_emitted w @ new\<rparr>
         \<and> length new = length (listenersOf w sock OnChangeTimezone)
         \<and> list_all (\<lambda>m. fst m = sock) new"
proof -
  have "\<forall>(key, client) \<in> set (listenersOf w sock OnChangeTimezone).
             client < length (ss_clients w) \<and> cl_socket (ss_clients w ! client) = sock
             \<and> ss_instances w key \<noteq> None"
    using assms by (auto simp: listenersBound_def listenersOf_def list_all_iff)
  from fold_changeTimezone[OF this, of e tz] show ?thesis by simp
qed

lemma updateInstance_keeps:
  "ss_instances w k \<noteq> None \<Longrightarrow> ss_instances (updateInstance key f w) k \<noteq> None"
  by (auto simp: updateInstance_def split: option.splits)

lemma onConnect_keeps:
  "ss_instances w k \<noteq> None \<Longrightarrow> ss_instances (onConnect e key client w) k \<noteq> None"
  using updateInstance_keeps[of w k]
  by (simp add: onConnect_def setInterval_def Let_def sendTimeUpdate_frame)

lemma getWebSocketInstance_keeps:
  "ss_instances w k \<noteq> None \<Longrightarrow>
   ss_instances (snd (getWebSocketInstance ctorThrows c metadata urlParams w)) k \<noteq> None"
  by (auto simp: getWebSocketInstance_def Let_def split: option.splits prod.splits sum.splits)

lemma subscriptionLoop_keeps:
  "ss_instances w k \<noteq> None \<Longrightarrow>
   ss_instances (subscriptionLoop e ctorThrows sock tz wsRoutes w) k \<noteq> None"
proof (induction wsRoutes)
  case Nil
  then show ?case by (simp add: emit_def)
next
  case (Cons r wsRoutes)
  obtain c metadata where r: "r = (c, metadata)" by (cases r)
  show ?case
  proof (cases "matchTimezoneRoute tz (ws_path metadata)")
    case None
    with Cons r show ?thesis by simp
  next
    case (Some urlParams)
    obtain res w' where g: "getWebSocketInstance ctorThrows c metadata urlParams w = (res, w')"
      by (cases "getWebSocketInstance ctorThrows c metadata urlParams w")
    have k: "ss_instances w' k \<noteq> None"
      using getWebSocketInstance_keeps[OF Cons.prems, of ctorThrows c metadata urlParams] g
      by simp
    show ?thesis
    proof (cases res)
      case (Inl err)
      with Some g r k show ?thesis by (simp add: emit_def)
    next
      case (Inr key)
      have k': "ss_instances (w'\<lparr>ss_clients := ss_clients w' @
                  [\<lparr>cl_socket = sock, cl_timezone = tz, cl_intervalId = None\<rparr>]\<rparr>) k \<noteq> None"
        using k by simp
      from Inr Some g r k' show ?thesis
        using onConnect_keeps[OF k', of e key "length (ss_clients w')"]
        by (simp add: Let_def emit_def)
    qed
  qed
qed

lemma handleTimezoneSubscription_keeps:
  "ss_instances w k \<noteq> None \<Longrightarrow>
   ss_instances (handleTimezoneSubscription e ctorThrows sock tz w) k \<noteq> None"
  unfolding handleTimezoneSubscription_def Let_def
  by (rule subscriptionLoop_keeps) simp

lemma listenersBound_subscription:
  assumes "ss_registry w = appRegistry reflect reflectCtor" and "listenersBound w"
  shows "listenersBound (handleTimezoneSubscription e appConstructors sock tz w)"
proof -
  note eff = handleTimezoneSubscription_app[OF assms(1), of e sock tz]
  have old: "\<And>s k key client. (s, k, key, client) \<in> set (ss_listeners w) \<Longrightarrow>
      client < length (ss_clients w) \<and> cl_socket (ss_clients w ! client) = s
      \<and> ss_instances (handleTimezoneSubscription e appConstructors sock tz w) key \<noteq> None"
    using assms(2) handleTimezoneSubscription_keeps
    by (fastforce simp: listenersBound_def list_all_iff)
  show ?thesis
    unfolding listenersBound_def list_all_iff
    using old eff by (auto simp: nth_append)
qed

lemma listenersBound_facts:
  "listenersBound startedServer" "listenersBound subscribedServer"
  "listenersBound resubscribedServer"
proof -
  show a: "listenersBound startedServer"
    by (simp add: listenersBound_def startedServer_facts)
  show b: "listenersBound subscribedServer"
    unfolding subscribedServer_def
    by (rule listenersBound_subscription[OF startedServer_facts(1) a])
  show "listenersBound resubscribedServer"
    unfolding resubscribedServer_def
    by (rule listenersBound_subscription[OF subscribedServer_facts(1) b])
qed

lemma resubscribedServer_facts:
  "ss_clients resubscribedServer
     = [\<lparr>cl_socket = 0, cl_timezone = ''Etc/UTC'', cl_intervalId = Some 0\<rparr>,
        \<lparr>cl_socket = 0, cl_timezone = ''Europe/Paris'', cl_intervalId = Some 1\<rparr>]"
  "listenersOf resubscribedServer 0 OnChangeTimezone
     = [(''TimezoneWebSocket-Etc/UTC'', 0), (''TimezoneWebSocket-Europe/Paris'', 1)]"
  using handleTimezoneSubscription_app[OF subscribedServer_facts(1), of utcEngine 0 "''Europe/Paris''"]
  by (simp_all add: resubscribedServer_def subscribedServer_facts listenersOf_def)

text \<open>The condition on the listeners holds when the server starts and after every event of
  a socket.\<close>

lemma fold_keeps:
  assumes "\<And>x w. P w \<Longrightarrow> P (f x w)" and "P w"
  shows "P (fold f xs w)"
  using assms(2) by (induction xs arbitrary: w) (simp_all add: assms(1))

lemma listenersBound_transfer:
  assumes "listenersBound w" and "ss_clients w' = ss_clients w"
    and "ss_listeners w' = ss_listeners w"
    and "\<forall>k. ss_instances w k \<noteq> None \<longrightarrow> ss_instances w' k \<noteq> None"
  shows "listenersBound w'"
  using assms by (auto simp: listenersBound_def list_all_iff)

lemma clearInterval_frame:
  "ss_clients (clearInterval tid w) = ss_clients w
   \<and> ss_listeners (clearInterval tid w) = ss_listeners w
   \<and> ss_registry (clearInterval tid w) = ss_registry w
   \<and> ss_instances (clearInterval tid w) = ss_instances w"
  by (simp add: clearInterval_def)

lemma onDisconnect_frame:
  "ss_clients (onDisconnect key client w) = ss_clients w
   \<and> ss_listeners (onDisconnect key client w) = ss_listeners w
   \<and> ss_registry (onDisconnect key client w) = ss_registry w
   \<and> (ss_instances w k \<noteq> None \<longrightarrow> ss_instances (onDisconnect key client w) k \<noteq> None)"
  by (auto simp: onDisconnect_def Let_def updateInstance_frame clearInterval_frame
      updateInstance_def split: option.splits)

lemma retarget_length: "length (retarget targets tz xs) = length xs"
  by (simp add: retarget_def)

lemma retarget_socket:
  "i < length xs \<Longrightarrow> cl_socket (retarget targets tz xs ! i) = cl_socket (xs ! i)"
  by (simp add: retarget_def nth_enumerate_eq)

lemma socketStep_invariant:
  assumes "ss_registry w = appRegistry reflect reflectCtor" and "listenersBound w"
  shows "ss_registry (socketStep e appConstructors ev w) = ss_registry w
       \<and> listenersBound (socketStep e appConstructors ev w)"
proof (cases ev)
  case (SubscribeTimezone sock tz)
  then show ?thesis
    using handleTimezoneSubscription_app[OF assms(1), of e sock tz]
      listenersBound_subscription[OF assms, of e sock tz]
    by simp
next
  case (Disconnect sock)
  define P where "P = (\<lambda>w' :: socketServer. ss_clients w' = ss_clients w \<and> ss_listeners w' = ss_listeners w
      \<and> ss_registry w' = ss_registry w
      \<and> (\<forall>k. ss_instances w k \<noteq> None \<longrightarrow> ss_instances w' k \<noteq> None))"
  have "P (fold (\<lambda>(key, client). onDisconnect key client) (listenersOf w sock OnDisconnect) w)"
  proof (rule fold_keeps)
    show "P w" by (simp add: P_def)
  next
    fix x :: "string \<times> nat" and w' assume "P w'"
    then show "P ((\<lambda>(key, client). onDisconnect key client) x w')"
      using onDisconnect_frame[of "fst x" "snd x" w']
      by (auto simp: P_def split: prod.splits)
  qed
  then show ?thesis
    using Disconnect assms(2)
    by (auto simp: P_def Let_def intro!: listenersBound_transfer[OF assms(2)])
next
  case (GetTime sock)
  define P where "P = (\<lambda>w' :: socketServer. ss_clients w' = ss_clients w \<and> ss_listeners w' = ss_listeners w
      \<and> ss_registry w' = ss_registry w \<and> ss_instances w' = ss_instances w)"
  have "P (fold (\<lambda>(key, client). sendTimeUpdate e key client) (listenersOf w sock OnGetTime) w)"
  proof (rule fold_keeps)
    show "P w" by (simp add: P_def)
  next
    fix x :: "string \<times> nat" and w' assume "P w'"
    then show "P ((\<lambda>(key, client). sendTimeUpdate e key client) x w')"
      by (auto simp: P_def sendTimeUpdate_frame split: prod.splits)
  qed
  then show ?thesis
    using GetTime by (auto simp: P_def intro!: listenersBound_transfer[OF assms(2)])
next
  case (ChangeTimezone sock tz)
  obtain new where
    step: "socketStep e appConstructors (ChangeTimezone sock tz) w
           = w\<lparr>ss_clients := retarget (map snd (listenersOf w sock OnChangeTimezone)) tz
                                (ss_clients w),
               ss_emitted := ss_emitted w @ new\<rparr>"
    using changeTimezone_event_effect[OF assms(2), of e appConstructors sock tz] by blast
  show ?thesis
    unfolding ChangeTimezone step
    using assms(2)
    by (auto simp: listenersBound_def list_all_iff retarget_length retarget_socket)
next
  case (TimerFires tid)
  then show ?thesis
    by (auto simp: sendTimeUpdate_frame intro!: listenersBound_transfer[OF assms(2)])
qed

lemma socketRun_invariant:
  assumes "ss_registry w = appRegistry reflect reflectCtor" and "listenersBound w"
  shows "ss_registry (socketRun e appConstructors events w) = ss_registry w
       \<and> listenersBound (socketRun e appConstructors events w)"
  using assms unfolding socketRun_def
proof (induction events arbitrary: w)
  case Nil
  then show ?case by simp
next
  case (Cons ev events)
  from socketStep_invariant[OF Cons.prems, of e ev]
  have r: "ss_registry (socketStep e appConstructors ev w) = appRegistry reflect reflectCtor"
    and l: "listenersBound (socketStep e appConstructors ev w)"
    using Cons.prems(1) by simp_all
  from Cons.IH[OF r l] r Cons.prems(1) show ?case by simp
qed

lemma listenersBound_reachable:
  "listenersBound (socketRun e appConstructors events
     (initialServer (appRegistry reflect reflectCtor)))"
proof -
  have "ss_registry (initialServer (appRegistry reflect reflectCtor))
      = appRegistry reflect reflectCtor"
    and "listenersBound (initialServer (appRegistry reflect reflectCtor))"
    by (simp_all add: initialServer_def listenersBound_def)
  from socketRun_invariant[OF this] show ?thesis by simp
qed

text \<open>
  Claim C8, as the code has it. Every subscription of a connection has installed one
  \<^verbatim>\<open>change-timezone\<close> listener for the record it created. A \<^verbatim>\<open>change-timezone\<close> signal of
  the connection sets the timezone of each of these records and of no other record, and
  emits one message per listener, each to the connection's socket. The rooms, the
  controller instances with their client sets, the timers, the listeners and both
  registries stay as they are.
\<close>

theorem changeTimezone_event:
  assumes "listenersBound w"
  shows "(let w' = socketStep e ctorThrows (ChangeTimezone sock tz) w;
              targets = map snd (listenersOf w sock OnChangeTimezone)
          in ss_clients w' = retarget targets tz (ss_clients w)
             \<and> take (length (ss_emitted w)) (ss_emitted w') = ss_emitted w
             \<and> length (ss_emitted w') = length (ss_emitted w) + length targets
             \<and> list_all (\<lambda>m. fst m = sock) (drop (length (ss_emitted w)) (ss_emitted w'))
             \<and> ss_rooms w' = ss_rooms w
             \<and> ss_instances w' = ss_instances w
             \<and> ss_timers w' = ss_timers w
             \<and> ss_listeners w' = ss_listeners w
             \<and> ss_registry w' = ss_registry w
             \<and> ss_services w' = ss_services w)"
proof -
  obtain new where
    step: "socketStep e ctorThrows (ChangeTimezone sock tz) w
           = w\<lparr>ss_clients := retarget (map snd (listenersOf w sock OnChangeTimezone)) tz
                                (ss_clients w),
               ss_emitted := ss_emitted w @ new\<rparr>"
    and new: "length new = length (listenersOf w sock OnChangeTimezone)"
      "list_all (\<lambda>m. fst m = sock) new"
    using changeTimezone_event_effect[OF assms, of e ctorThrows sock tz] by blast
  show ?thesis
    unfolding Let_def step using new by simp
qed

theorem changeTimezone_event_witness:
  "listenersBound subscribedServer
   \<and> ss_clients (socketStep utcEngine appConstructors (ChangeTimezone 0 ''Europe/Paris'')
                   subscribedServer)
     = [\<lparr>cl_socket = 0, cl_timezone = ''Europe/Paris'', cl_intervalId = Some 0\<rparr>]
   \<and> length (ss_emitted (socketStep utcEngine appConstructors (ChangeTimezone 0 ''Europe/Paris'')
                            subscribedServer))
     = Suc (length (ss_emitted subscribedServer))
   \<and> ss_timers (socketStep utcEngine appConstructors (ChangeTimezone 0 ''Europe/Paris'')
                  subscribedServer)
     = ss_timers subscribedServer
   \<and> ss_rooms (socketStep utcEngine appConstructors (ChangeTimezone 0 ''Europe/Paris'')
                 subscribedServer)
     = [(0, ''timezone-Etc/UTC'')]
   \<and> ss_instances (socketStep utcEngine appConstructors (ChangeTimezone 0 ''Europe/Paris'')
                     subscribedServer)
     = ss_instances subscribedServer"
proof -
  have l: "listenersOf subscribedServer 0 OnChangeTimezone = [(''TimezoneWebSocket-Etc/UTC'', 0)]"
    by (simp add: listenersOf_def subscribedServer_facts)
  show ?thesis
    using changeTimezone_event[OF listenersBound_facts(2), of utcEngine appConstructors 0
        "''Europe/Paris''"]
      listenersBound_facts(2)
    by (simp add: Let_def l subscribedServer_facts retarget_def)
qed

text \<open>
  Claim C8 as stated fails: after a connection has subscribed twice, one
  \<^verbatim>\<open>change-timezone\<close> signal sets the timezone of both of its records and emits two
  messages.
\<close>

theorem changeTimezone_two_records_counterexample:
  "map snd (listenersOf resubscribedServer 0 OnChangeTimezone) = [0, 1]
   \<and> ss_clients (socketStep utcEngine appConstructors (ChangeTimezone 0 ''Asia/Tokyo'')
                   resubscribedServer)
     = [\<lparr>cl_socket = 0, cl_timezone = ''Asia/Tokyo'', cl_intervalId = Some 0\<rparr>,
        \<lparr>cl_socket = 0, cl_timezone = ''Asia/Tokyo'', cl_intervalId = Some 1\<rparr>]
   \<and> length (ss_emitted (socketStep utcEngine appConstructors (ChangeTimezone 0 ''Asia/Tokyo'')
                            resubscribedServer))
     = length (ss_emitted resubscribedServer) + 2"
proof -
  obtain new where
    step: "socketStep utcEngine appConstructors (ChangeTimezone 0 ''Asia/Tokyo'') resubscribedServer
           = resubscribedServer\<lparr>ss_clients :=
                 retarget (map snd (listenersOf resubscribedServer 0 OnChangeTimezone))
                   ''Asia/Tokyo'' (ss_clients resubscribedServer),
               ss_emitted := ss_emitted resubscribedServer @ new\<rparr>"
    and new: "length new = length (listenersOf resubscribedServer 0 OnChangeTimezone)"
    using changeTimezone_event_effect[OF listenersBound_facts(3), of utcEngine appConstructors 0
        "''Asia/Tokyo''"]
    by blast
  show ?thesis
    unfolding step using new
    by (simp add: resubscribedServer_facts retarget_def)
qed

end
